theory Spec2Isabelle
  imports Complex_Main
begin

section \<open>Data model of the editor (src/App.tsx, src/components/AdjustmentPanel.tsx)\<close>

text \<open>
  The editor is one React component whose state is a set of \<open>useState\<close> cells. The
  model keeps them in one record and turns every handler into a function from the state
  before the event to the state after it. JavaScript numbers are modelled by integers
  where the code only ever holds integers (the history cursor, slider values, the copy
  count) and by rationals where it holds measurements. The arithmetic of
  \<open>cropImageToFile\<close>, whose products are truncated to a number of pixels, rounds as
  doubles do; the geometry of the printable sheet is computed exactly, and its checks
  are shown to be far from their thresholds.
\<close>

datatype Tab = Retouch | Adjust | Filters | Crop | Enhance | Passport

datatype PassportStep = Idle | Cropping | Background | Sheet

text \<open>A \<open>File\<close>: its bytes, its name and its MIME type.\<close>

datatype File = File (file_bits: string) (file_name: string) (file_type: string)

text \<open>A thrown value: an \<open>Error\<close> object with its message, or anything else.\<close>

datatype js_exn = Error string | Thrown

record Adjustments =
  brightness :: int
  contrast :: int
  saturation :: int
  temperature :: int
  sharpness :: int
  vignetteIntensity :: int
  vignetteFeather :: int
  colorBalance :: int

definition initialAdjustments :: Adjustments where
  "initialAdjustments =
     \<lparr>brightness = 0, contrast = 0, saturation = 0, temperature = 0, sharpness = 0,
      vignetteIntensity = 0, vignetteFeather = 0, colorBalance = 0\<rparr>"

text \<open>\<open>PixelCrop\<close> of react-image-crop: a rectangle in displayed-image coordinates.\<close>

record PixelCrop =
  crop_x :: rat
  crop_y :: rat
  crop_width :: rat
  crop_height :: rat

text \<open>The fields of the \<open>HTMLImageElement\<close> that the code reads.\<close>

record image_element =
  naturalWidth :: rat
  naturalHeight :: rat
  img_width :: rat
  img_height :: rat

record app_state =
  history :: "File list"
  historyIndex :: int
  prompt :: string
  isLoading :: bool
  error :: "string option"
  editHotspot :: "(int \<times> int) option"
  displayHotspot :: "(rat \<times> rat) option"
  activeTab :: Tab
  crop :: "PixelCrop option"
  completedCrop :: "PixelCrop option"
  aspect :: "rat option"
  isComparing :: bool
  adjustments :: Adjustments
  passportStep :: PassportStep
  passportCroppedImage :: "File option"

definition initial_state :: app_state where
  "initial_state =
     \<lparr>history = [], historyIndex = - 1, prompt = [], isLoading = False, error = None,
      editHotspot = None, displayHotspot = None, activeTab = Retouch, crop = None,
      completedCrop = None, aspect = None, isComparing = False,
      adjustments = initialAdjustments, passportStep = Idle,
      passportCroppedImage = None\<rparr>"

subsection \<open>Array primitives of JavaScript\<close>

text \<open>
  \<open>xs[i] ?? null\<close>: an index outside the array reads \<open>undefined\<close>, which \<open>??\<close> turns
  into \<open>null\<close>.
\<close>

definition js_index :: "'a list \<Rightarrow> int \<Rightarrow> 'a option" where
  "js_index xs i = (if 0 \<le> i \<and> i < int (length xs) then Some (xs ! nat i) else None)"

text \<open>
  \<open>xs.slice(0, end)\<close>: a negative \<open>end\<close> counts from the end of the array, and the
  result is clamped to the array.
\<close>

definition js_slice0 :: "'a list \<Rightarrow> int \<Rightarrow> 'a list" where
  "js_slice0 xs e =
     (let len = int (length xs);
          k = (if e < 0 then max (len + e) 0 else min e len)
      in take (nat k) xs)"

subsection \<open>Edit history (App.tsx, lines 63-64 and 113-125, 378-398)\<close>

definition currentImage :: "app_state \<Rightarrow> File option" where
  "currentImage s = js_index (history s) (historyIndex s)"

definition originalImage :: "app_state \<Rightarrow> File option" where
  "originalImage s = js_index (history s) 0"

definition resetTransientState :: "app_state \<Rightarrow> app_state" where
  "resetTransientState s =
     s\<lparr>crop := None, completedCrop := None, editHotspot := None, displayHotspot := None,
       adjustments := initialAdjustments\<rparr>"

definition canUndo :: "app_state \<Rightarrow> bool" where
  "canUndo s = (historyIndex s > 0)"

definition canRedo :: "app_state \<Rightarrow> bool" where
  "canRedo s = (historyIndex s < int (length (history s)) - 1)"

definition addImageToHistory :: "File \<Rightarrow> bool \<Rightarrow> app_state \<Rightarrow> app_state" where
  "addImageToHistory newImageFile resetAdjustmentsPreview s =
     (let newHistory = js_slice0 (history s) (historyIndex s + 1) @ [newImageFile];
          s1 = resetTransientState
                 (s\<lparr>history := newHistory, historyIndex := int (length newHistory) - 1\<rparr>)
      in if resetAdjustmentsPreview then s1\<lparr>adjustments := initialAdjustments\<rparr> else s1)"

definition handleUndo :: "app_state \<Rightarrow> app_state" where
  "handleUndo s =
     (if canUndo s then resetTransientState (s\<lparr>historyIndex := historyIndex s - 1\<rparr>) else s)"

definition handleRedo :: "app_state \<Rightarrow> app_state" where
  "handleRedo s =
     (if canRedo s then resetTransientState (s\<lparr>historyIndex := historyIndex s + 1\<rparr>) else s)"

definition handleReset :: "app_state \<Rightarrow> app_state" where
  "handleReset s =
     (if length (history s) > 0
      then resetTransientState (s\<lparr>historyIndex := 0, error := None\<rparr>)
      else s)"

subsection \<open>Strings and data URLs (App.tsx, lines 20-35)\<close>

text \<open>\<open>s.split(c)\<close> for a one-character separator: the empty string gives one empty piece.\<close>

fun js_split :: "char \<Rightarrow> string \<Rightarrow> string list" where
  "js_split c [] = [[]]"
| "js_split c (x # xs) =
     (if x = c then [] # js_split c xs
      else (case js_split c xs of
              [] \<Rightarrow> [[x]]
            | w # ws \<Rightarrow> (x # w) # ws))"

text \<open>\<open>parts.join(sep)\<close>.\<close>

fun js_join :: "string \<Rightarrow> string list \<Rightarrow> string" where
  "js_join sep [] = []"
| "js_join sep [p] = p"
| "js_join sep (p # q # ps) = p @ sep @ js_join sep (q # ps)"

definition js_startsWith :: "string \<Rightarrow> string \<Rightarrow> bool" where
  "js_startsWith s p = (take (length p) s = p)"

text \<open>
  Strings are byte strings here; of the white space and line terminators of JavaScript
  the model knows the ASCII ones.
\<close>

definition line_terminator :: "char \<Rightarrow> bool" where
  "line_terminator c = (c = CHR 0x0A \<or> c = CHR 0x0D)"

definition white_space :: "char \<Rightarrow> bool" where
  "white_space c =
     (c = CHR '' '' \<or> c = CHR 0x09 \<or> c = CHR 0x0A \<or> c = CHR 0x0B \<or> c = CHR 0x0C \<or> c = CHR 0x0D)"

definition js_trim :: "string \<Rightarrow> string" where
  "js_trim s = rev (dropWhile white_space (rev (dropWhile white_space s)))"

text \<open>
  \<open>s.match(/:(.*?);/)\<close>, reduced to its first group: the leftmost colon from which a
  semicolon is reached without crossing a line terminator, and the text in between
  (possibly empty). \<open>None\<close> is no match.
\<close>

fun mime_match :: "string \<Rightarrow> string option" where
  "mime_match [] = None"
| "mime_match (c # cs) =
     (if c = CHR '':''
      then (case dropWhile (\<lambda>d. d \<noteq> CHR '';'' \<and> \<not> line_terminator d) cs of
              [] \<Rightarrow> mime_match cs
            | d # _ \<Rightarrow>
                if d = CHR '';''
                then Some (takeWhile (\<lambda>d. d \<noteq> CHR '';'' \<and> \<not> line_terminator d) cs)
                else mime_match cs)
      else mime_match cs)"

text \<open>The drawing calls made on a canvas, in their order.\<close>

datatype canvas_op =
    SetTransform rat rat rat rat rat rat
  | ImageSmoothingQuality string
  | FillRect string rat rat rat rat
  | StrokeRect string rat rat rat rat rat
  | DrawImage rat rat rat rat
  | DrawImageSub rat rat rat rat rat rat rat rat

record canvas =
  canvas_width :: nat
  canvas_height :: nat
  drawn :: "canvas_op list"

text \<open>
  What the page cannot decide is read from the browser: the device pixel ratio, whether a
  2D context is to be had, the serialisation of a canvas (the base64 payload for a type
  and a quality), \<open>atob\<close> (which throws on ill-formed input) and the clock
  (\<open>Date.now()\<close>, in decimal digits).
\<close>

record browser =
  devicePixelRatio :: rat
  has2d :: bool
  encode :: "canvas \<Rightarrow> string \<Rightarrow> rat option \<Rightarrow> string"
  atob :: "string \<Rightarrow> js_exn + string"
  now :: string

text \<open>
  Assigning a number to \<open>canvas.width\<close> or \<open>canvas.height\<close>: a number that is not
  finite (\<open>None\<close>) counts as 0; a finite one is truncated towards zero and taken modulo
  \<open>2^32\<close> (an \<open>unsigned long\<close>), and a result above \<open>2^31 - 1\<close> is replaced by the
  attribute's default (300 and 150).
\<close>

definition set_canvas_dim :: "nat \<Rightarrow> rat option \<Rightarrow> nat" where
  "set_canvas_dim dflt number =
     (let v = (case number of None \<Rightarrow> 0 | Some q \<Rightarrow> q);
          u = (if v < 0 then - \<lfloor>- v\<rfloor> else \<lfloor>v\<rfloor>) mod 4294967296
      in if u \<le> 2147483647 then nat u else dflt)"

text \<open>
  \<open>canvas.toDataURL(type, quality)\<close>: a canvas without pixels serialises to the string
  \<open>data:,\<close>.
\<close>

definition toDataURL :: "browser \<Rightarrow> canvas \<Rightarrow> string \<Rightarrow> rat option \<Rightarrow> string" where
  "toDataURL b cv ty quality =
     (if canvas_width cv = 0 \<or> canvas_height cv = 0 then ''data:,''
      else ''data:'' @ ty @ '';base64,'' @ encode b cv ty quality)"

definition dataURLtoFile :: "browser \<Rightarrow> string \<Rightarrow> string \<Rightarrow> js_exn + File" where
  "dataURLtoFile b dataurl filename =
     (let arr = js_split CHR '','' dataurl
      in if length arr < 2 then Inl (Error ''Invalid data URL'')
         else (case mime_match (arr ! 0) of
                 None \<Rightarrow> Inl (Error ''Could not parse MIME type from data URL'')
               | Some mime \<Rightarrow>
                   if mime = [] then Inl (Error ''Could not parse MIME type from data URL'')
                   else (case atob b (arr ! 1) of
                           Inl e \<Rightarrow> Inl e
                         | Inr bstr \<Rightarrow> Inr (File bstr filename mime))))"

text \<open>
  The bytes that a file made from a serialised canvas holds: the payload of the data URL,
  up to a comma if it has one, as \<open>atob\<close> decodes it.
\<close>

definition canvas_bytes :: "browser \<Rightarrow> canvas \<Rightarrow> string \<Rightarrow> rat option \<Rightarrow> js_exn + string" where
  "canvas_bytes b cv ty quality =
     atob b (takeWhile (\<lambda>d. d \<noteq> CHR '','') (encode b cv ty quality))"

definition err_message :: "js_exn \<Rightarrow> string \<Rightarrow> string" where
  "err_message err dflt = (case err of Error m \<Rightarrow> m | Thrown \<Rightarrow> dflt)"

subsection \<open>Cropping to a file (App.tsx, lines 212-239)\<close>

text \<open>
  The products and quotients of \<open>cropImageToFile\<close> are products and quotients of
  doubles: the exact result is rounded to the nearest double, ties to the even
  significand. \<open>binary64\<close> rounds a rational: the magnitude is scaled by powers of two
  into \<open>[2^52, 2^53)\<close>, the exponent of the last place staying within -1074 (below it
  the subnormal numbers keep that exponent) and 971, the scaled magnitude is rounded to
  an integer, and a result of \<open>2^1024\<close> or more is not finite (\<open>None\<close>).
\<close>

definition round_half_even :: "rat \<Rightarrow> int" where
  "round_half_even x =
     (let f = \<lfloor>x\<rfloor>; r = x - of_int f
      in if r < 1 / 2 then f
         else if 1 / 2 < r then f + 1
         else if even f then f else f + 1)"

function scale_down :: "rat \<Rightarrow> int \<Rightarrow> rat \<times> int" where
  "scale_down m e =
     (if 9007199254740992 \<le> m \<and> e < 971 then scale_down (m / 2) (e + 1) else (m, e))"
  by pat_completeness auto
termination
  by (relation "measure (\<lambda>(m, e). nat (971 - e))") auto

function scale_up :: "rat \<Rightarrow> int \<Rightarrow> rat \<times> int" where
  "scale_up m e =
     (if m < 4503599627370496 \<and> - 1074 < e then scale_up (m * 2) (e - 1) else (m, e))"
  by pat_completeness auto
termination
  by (relation "measure (\<lambda>(m, e). nat (e + 1074))") auto

declare scale_down.simps [simp del]

declare scale_up.simps [simp del]

definition binary64 :: "rat \<Rightarrow> rat option" where
  "binary64 x =
     (if x = 0 then Some 0
      else
        let (m1, e1) = scale_down \<bar>x\<bar> 0;
            (m, e) = scale_up m1 e1;
            n = round_half_even m
        in if 9007199254740992 \<le> n \<and> 971 \<le> e then None
           else Some (sgn x * of_int n * power_int 2 e))"

text \<open>
  \<open>a * b\<close> and \<open>a / b\<close> on numbers that may not be finite. A product or quotient
  with an operand that is not finite is not finite, and neither is a quotient by 0.
\<close>

definition js_times :: "rat option \<Rightarrow> rat option \<Rightarrow> rat option" where
  "js_times a b =
     (case (a, b) of
        (Some x, Some y) \<Rightarrow> binary64 (x * y)
      | _ \<Rightarrow> None)"

definition js_div :: "rat \<Rightarrow> rat \<Rightarrow> rat option" where
  "js_div a d = (if d = 0 then None else binary64 (a / d))"

definition scaleX :: "image_element \<Rightarrow> rat option" where
  "scaleX img = js_div (naturalWidth img) (img_width img)"

definition scaleY :: "image_element \<Rightarrow> rat option" where
  "scaleY img = js_div (naturalHeight img) (img_height img)"

definition pixelRatio :: "browser \<Rightarrow> rat" where
  "pixelRatio b = (if devicePixelRatio b = 0 then 1 else devicePixelRatio b)"

text \<open>
  The canvas of \<open>cropImageToFile\<close> as it stands when it is serialised. \<open>drawImage\<close>
  paints nothing when an argument is not finite.
\<close>

definition cropCanvas :: "browser \<Rightarrow> image_element \<Rightarrow> PixelCrop \<Rightarrow> canvas" where
  "cropCanvas b img c =
     \<lparr>canvas_width =
        set_canvas_dim 300 (js_times (Some (crop_width c)) (Some (pixelRatio b))),
      canvas_height =
        set_canvas_dim 150 (js_times (Some (crop_height c)) (Some (pixelRatio b))),
      drawn =
        [SetTransform (pixelRatio b) 0 0 (pixelRatio b) 0 0, ImageSmoothingQuality ''high'']
        @ (case (js_times (Some (crop_x c)) (scaleX img),
                 js_times (Some (crop_y c)) (scaleY img),
                 js_times (Some (crop_width c)) (scaleX img),
                 js_times (Some (crop_height c)) (scaleY img)) of
             (Some sx, Some sy, Some sw, Some sh) \<Rightarrow>
               [DrawImageSub sx sy sw sh 0 0 (crop_width c) (crop_height c)]
           | _ \<Rightarrow> [])\<rparr>"

definition cropImageToFile ::
  "browser \<Rightarrow> image_element \<Rightarrow> PixelCrop \<Rightarrow> string \<Rightarrow> js_exn + File" where
  "cropImageToFile b img c fileName =
     (if \<not> has2d b then Inl (Error ''Could not get canvas context'')
      else dataURLtoFile b (toDataURL b (cropCanvas b img c) ''image/png'' None) fileName)"

subsection \<open>The generator service and the handlers that call it (App.tsx, lines 127-210, 251-290)\<close>

text \<open>
  The remote service (\<open>services/geminiService\<close>) is a collaborator: each operation
  resolves to a data URL or rejects with a thrown value. A handler that awaits it is
  modelled from the click to the end of its \<open>finally\<close> block.
\<close>

record service =
  generateEditedImage :: "File \<Rightarrow> string \<Rightarrow> int \<times> int \<Rightarrow> js_exn + string"
  generateFilteredImage :: "File \<Rightarrow> string \<Rightarrow> js_exn + string"
  generateAdjustedImage :: "File \<Rightarrow> string \<Rightarrow> js_exn + string"
  generateUpscaledImage :: "File \<Rightarrow> js_exn + string"
  generatePassportPhoto :: "File \<Rightarrow> string \<Rightarrow> js_exn + string"
  generateAutoAdjustedImage :: "File \<Rightarrow> js_exn + string"

definition js_then :: "js_exn + 'a \<Rightarrow> ('a \<Rightarrow> js_exn + 'b) \<Rightarrow> js_exn + 'b" where
  "js_then r f = (case r of Inl e \<Rightarrow> Inl e | Inr v \<Rightarrow> f v)"

text \<open>The effect on \<open>activeTab\<close> (lines 78-88); it runs when the tab has changed.\<close>

definition activeTab_effect :: "app_state \<Rightarrow> app_state" where
  "activeTab_effect s =
     (if activeTab s = Passport
      then resetTransientState (s\<lparr>passportStep := Cropping, aspect := Some (7 / 9)\<rparr>)
      else s\<lparr>passportStep := Idle, passportCroppedImage := None, aspect := None\<rparr>)"

text \<open>
  After a handler has run, React renders again and runs the effect if \<open>activeTab\<close> is
  not what it was at the previous render.
\<close>

definition after_render :: "app_state \<Rightarrow> app_state \<Rightarrow> app_state" where
  "after_render old new = (if activeTab new \<noteq> activeTab old then activeTab_effect new else new)"

definition setActiveTab :: "Tab \<Rightarrow> app_state \<Rightarrow> app_state" where
  "setActiveTab t s = after_render s (s\<lparr>activeTab := t\<rparr>)"

definition handleImageUpload :: "File \<Rightarrow> app_state \<Rightarrow> app_state" where
  "handleImageUpload f s =
     after_render s
       ((resetTransientState
           (s\<lparr>error := None, history := [f], historyIndex := 0, activeTab := Retouch\<rparr>))
          \<lparr>passportStep := Idle, passportCroppedImage := None\<rparr>)"

definition handleGenerate :: "service \<Rightarrow> browser \<Rightarrow> app_state \<Rightarrow> app_state" where
  "handleGenerate svc b s =
     (case currentImage s of
        None \<Rightarrow> s\<lparr>error := Some ''No image loaded to edit.''\<rparr>
      | Some cur \<Rightarrow>
          if js_trim (prompt s) = []
          then s\<lparr>error := Some ''Please enter a description for your edit.''\<rparr>
          else (case editHotspot s of
                  None \<Rightarrow>
                    s\<lparr>error := Some ''Please click on the image to select an area to edit.''\<rparr>
                | Some hotspot \<Rightarrow>
                    let s1 = s\<lparr>isLoading := True, error := None\<rparr>;
                        s2 = (case js_then (generateEditedImage svc cur (prompt s) hotspot)
                                     (\<lambda>editedImageUrl.
                                        dataURLtoFile b editedImageUrl
                                          (''edited-'' @ now b @ ''.png'')) of
                                Inr newImageFile \<Rightarrow>
                                  (addImageToHistory newImageFile False s1)\<lparr>prompt := []\<rparr>
                              | Inl err \<Rightarrow>
                                  s1\<lparr>error := Some (''Failed to generate the image. ''
                                         @ err_message err ''An unknown error occurred.'')\<rparr>)
                    in s2\<lparr>isLoading := False\<rparr>))"

definition handleApplyFilter :: "service \<Rightarrow> browser \<Rightarrow> string \<Rightarrow> app_state \<Rightarrow> app_state" where
  "handleApplyFilter svc b filterPrompt s =
     (case currentImage s of
        None \<Rightarrow> s
      | Some cur \<Rightarrow>
          let s1 = s\<lparr>isLoading := True, error := None\<rparr>;
              s2 = (case js_then (generateFilteredImage svc cur filterPrompt)
                           (\<lambda>filteredImageUrl.
                              dataURLtoFile b filteredImageUrl
                                (''filtered-'' @ now b @ ''.png'')) of
                      Inr newImageFile \<Rightarrow> addImageToHistory newImageFile False s1
                    | Inl err \<Rightarrow>
                        s1\<lparr>error := Some (''Failed to apply the filter. ''
                               @ err_message err ''Unknown error'')\<rparr>)
          in s2\<lparr>isLoading := False\<rparr>)"

definition handleApplyAdjustment ::
  "service \<Rightarrow> browser \<Rightarrow> string \<Rightarrow> app_state \<Rightarrow> app_state" where
  "handleApplyAdjustment svc b adjustmentPrompt s =
     (case currentImage s of
        None \<Rightarrow> s
      | Some cur \<Rightarrow>
          let s1 = s\<lparr>isLoading := True, error := None\<rparr>;
              s2 = (case js_then (generateAdjustedImage svc cur adjustmentPrompt)
                           (\<lambda>adjustedImageUrl.
                              dataURLtoFile b adjustedImageUrl
                                (''adjusted-'' @ now b @ ''.png'')) of
                      Inr newImageFile \<Rightarrow> addImageToHistory newImageFile True s1
                    | Inl err \<Rightarrow>
                        s1\<lparr>error := Some (''Failed to apply adjustment. ''
                               @ err_message err ''Unknown error'')\<rparr>)
          in s2\<lparr>isLoading := False\<rparr>)"

definition handleAutoAdjust :: "service \<Rightarrow> browser \<Rightarrow> app_state \<Rightarrow> app_state" where
  "handleAutoAdjust svc b s =
     (case currentImage s of
        None \<Rightarrow> s
      | Some cur \<Rightarrow>
          let s1 = s\<lparr>isLoading := True, error := None\<rparr>;
              s2 = (case js_then (generateAutoAdjustedImage svc cur)
                           (\<lambda>adjustedImageUrl.
                              dataURLtoFile b adjustedImageUrl
                                (''auto-adjusted-'' @ now b @ ''.png'')) of
                      Inr newImageFile \<Rightarrow> addImageToHistory newImageFile True s1
                    | Inl err \<Rightarrow>
                        s1\<lparr>error := Some (''Failed to auto-adjust. ''
                               @ err_message err ''Unknown error'')\<rparr>)
          in s2\<lparr>isLoading := False\<rparr>)"

definition handleUpscale :: "service \<Rightarrow> browser \<Rightarrow> app_state \<Rightarrow> app_state" where
  "handleUpscale svc b s =
     (case currentImage s of
        None \<Rightarrow> s
      | Some cur \<Rightarrow>
          let s1 = s\<lparr>isLoading := True, error := None\<rparr>;
              s2 = (case js_then (generateUpscaledImage svc cur)
                           (\<lambda>upscaledImageUrl.
                              dataURLtoFile b upscaledImageUrl
                                (''upscaled-'' @ now b @ ''.png'')) of
                      Inr newImageFile \<Rightarrow> addImageToHistory newImageFile False s1
                    | Inl err \<Rightarrow>
                        s1\<lparr>error := Some (''Failed to upscale image. ''
                               @ err_message err ''Unknown error'')\<rparr>)
          in s2\<lparr>isLoading := False\<rparr>)"

text \<open>
  The crop handlers are synchronous. \<open>imgRef\<close> is the element the ref points to, if
  any.
\<close>

definition handleApplyCrop ::
  "browser \<Rightarrow> image_element option \<Rightarrow> app_state \<Rightarrow> app_state" where
  "handleApplyCrop b imgRef s =
     (case (completedCrop s, imgRef) of
        (Some c, Some img) \<Rightarrow>
          (case cropImageToFile b img c (''cropped-'' @ now b @ ''.png'') of
             Inr newImageFile \<Rightarrow> addImageToHistory newImageFile False s
           | Inl err \<Rightarrow>
               s\<lparr>error := Some (''Failed to apply crop. '' @ err_message err ''Unknown error'')\<rparr>)
      | _ \<Rightarrow> s)"

subsection \<open>The passport workflow (App.tsx, lines 265-290 and 372-376)\<close>

definition handlePassportCrop ::
  "browser \<Rightarrow> image_element option \<Rightarrow> app_state \<Rightarrow> app_state" where
  "handlePassportCrop b imgRef s =
     (case (completedCrop s, imgRef) of
        (Some c, Some img) \<Rightarrow>
          (case cropImageToFile b img c (''passport-crop-'' @ now b @ ''.png'') of
             Inr croppedFile \<Rightarrow>
               resetTransientState
                 (s\<lparr>passportCroppedImage := Some croppedFile, passportStep := Background\<rparr>)
           | Inl err \<Rightarrow>
               s\<lparr>error := Some (''Failed to crop for passport. ''
                      @ err_message err ''Unknown error'')\<rparr>)
      | _ \<Rightarrow> s)"

definition handlePassportBgChange ::
  "service \<Rightarrow> browser \<Rightarrow> string \<Rightarrow> app_state \<Rightarrow> app_state" where
  "handlePassportBgChange svc b color s =
     (case passportCroppedImage s of
        None \<Rightarrow> s
      | Some cropped \<Rightarrow>
          let s1 = s\<lparr>isLoading := True, error := None\<rparr>;
              s2 = (case js_then (generatePassportPhoto svc cropped color)
                           (\<lambda>finalPhotoUrl.
                              dataURLtoFile b finalPhotoUrl
                                (''passport-'' @ now b @ ''.png'')) of
                      Inr newImageFile \<Rightarrow>
                        (addImageToHistory newImageFile False s1)\<lparr>passportStep := Sheet\<rparr>
                    | Inl err \<Rightarrow>
                        s1\<lparr>error := Some (''Failed to change passport background. ''
                               @ err_message err ''Unknown error'')\<rparr>)
          in s2\<lparr>isLoading := False\<rparr>)"

definition handlePassportReset :: "app_state \<Rightarrow> app_state" where
  "handlePassportReset s =
     resetTransientState (s\<lparr>passportStep := Cropping, passportCroppedImage := None\<rparr>)"

definition handleUploadNew :: "app_state \<Rightarrow> app_state" where
  "handleUploadNew s =
     (resetTransientState (s\<lparr>history := [], historyIndex := - 1, error := None, prompt := []\<rparr>))
       \<lparr>passportStep := Idle, passportCroppedImage := None\<rparr>"

text \<open>
  \<open>PassportPanel\<close> (the third file of src/components/Header.tsx): the prop
  \<open>isCropping\<close> as App.tsx computes it (line 607), and the Confirm Crop button, which is
  disabled while the app is busy or no crop is under way.
\<close>

definition isCropping :: "app_state \<Rightarrow> bool" where
  "isCropping s =
     (case completedCrop s of
        None \<Rightarrow> False
      | Some c \<Rightarrow> crop_width c \<noteq> 0 \<and> crop_width c > 0)"

definition confirmCrop_click ::
  "browser \<Rightarrow> image_element option \<Rightarrow> app_state \<Rightarrow> app_state" where
  "confirmCrop_click b imgRef s =
     (if isLoading s \<or> \<not> isCropping s then s else handlePassportCrop b imgRef s)"

text \<open>
  The invariant of the passport workflow as the specification states it, together with
  what ties it to the tabs: outside the passport tab the workflow is idle.
\<close>

definition passport_inv :: "app_state \<Rightarrow> bool" where
  "passport_inv s =
     ((passportCroppedImage s \<noteq> None) = (passportStep s = Background \<or> passportStep s = Sheet)
      \<and> (activeTab s \<noteq> Passport \<longrightarrow> passportStep s = Idle))"

text \<open>
  The invariant of the history as the specification states it: the cursor is an index of
  the sequence, or -1 when the sequence is empty.
\<close>

definition history_inv :: "app_state \<Rightarrow> bool" where
  "history_inv s =
     (if history s = [] then historyIndex s = - 1
      else 0 \<le> historyIndex s \<and> historyIndex s < int (length (history s)))"

subsection \<open>The printable sheet (App.tsx, lines 292-370)\<close>

datatype SheetSize = S4x6 | S5x7 | A4

datatype Layout = Portrait | Landscape

definition SheetSize_text :: "SheetSize \<Rightarrow> string" where
  "SheetSize_text z = (case z of S4x6 \<Rightarrow> ''4x6'' | S5x7 \<Rightarrow> ''5x7'' | A4 \<Rightarrow> ''A4'')"

definition Layout_text :: "Layout \<Rightarrow> string" where
  "Layout_text l = (case l of Portrait \<Rightarrow> ''portrait'' | Landscape \<Rightarrow> ''landscape'')"

definition DPI :: rat where
  "DPI = 300"

text \<open>\<open>SIZES\<close>: width and height of a preset, in inches.\<close>

definition SIZES :: "SheetSize \<Rightarrow> rat \<times> rat" where
  "SIZES z = (case z of S4x6 \<Rightarrow> (4, 6) | S5x7 \<Rightarrow> (5, 7) | A4 \<Rightarrow> (827 / 100, 1169 / 100))"

definition PASSPORT_SIZE_MM :: "rat \<times> rat" where
  "PASSPORT_SIZE_MM = (35, 45)"

definition MM_TO_IN :: rat where
  "MM_TO_IN = 393701 / 10000000"

definition sheetW_in :: "SheetSize \<Rightarrow> Layout \<Rightarrow> rat" where
  "sheetW_in z l = (if l = Landscape then snd (SIZES z) else fst (SIZES z))"

definition sheetH_in :: "SheetSize \<Rightarrow> Layout \<Rightarrow> rat" where
  "sheetH_in z l = (if l = Landscape then fst (SIZES z) else snd (SIZES z))"

definition sheetW_px :: "SheetSize \<Rightarrow> Layout \<Rightarrow> rat" where
  "sheetW_px z l = sheetW_in z l * DPI"

definition sheetH_px :: "SheetSize \<Rightarrow> Layout \<Rightarrow> rat" where
  "sheetH_px z l = sheetH_in z l * DPI"

definition photoW_px :: rat where
  "photoW_px = fst PASSPORT_SIZE_MM * MM_TO_IN * DPI"

definition photoH_px :: rat where
  "photoH_px = snd PASSPORT_SIZE_MM * MM_TO_IN * DPI"

definition margin_px :: rat where
  "margin_px = (1 / 10) * DPI"

text \<open>
  The loop of \<open>img.onload\<close> (lines 338-358) for a page of \<open>sw\<close> by \<open>sh\<close> pixels: the
  number of iterations left, the pen position, and the drawing calls it makes.
\<close>

fun sheet_loop :: "rat \<Rightarrow> rat \<Rightarrow> nat \<Rightarrow> rat \<Rightarrow> rat \<Rightarrow> canvas_op list" where
  "sheet_loop sw sh 0 x y = []"
| "sheet_loop sw sh (Suc k) x y =
     (let wrap = (x + photoW_px + margin_px > sw);
          x1 = (if wrap then margin_px else x);
          y1 = (if wrap then y + (photoH_px + margin_px) else y)
      in if y1 + photoH_px + margin_px > sh then []
         else StrokeRect ''#cccccc'' 1 x1 y1 photoW_px photoH_px
              # DrawImage x1 y1 photoW_px photoH_px
              # sheet_loop sw sh k (x1 + (photoW_px + margin_px)) y1)"

text \<open>The canvas of the sheet when \<open>img.onload\<close> serialises it.\<close>

definition sheetCanvas :: "SheetSize \<Rightarrow> Layout \<Rightarrow> int \<Rightarrow> canvas" where
  "sheetCanvas z l photoCount =
     \<lparr>canvas_width = set_canvas_dim 300 (Some (sheetW_px z l)),
      canvas_height = set_canvas_dim 150 (Some (sheetH_px z l)),
      drawn =
        FillRect ''white'' 0 0 (sheetW_px z l) (sheetH_px z l)
        # sheet_loop (sheetW_px z l) (sheetH_px z l) (nat photoCount) margin_px margin_px\<rparr>"

text \<open>
  \<open>loaded\<close> tells whether the image decodes (\<open>onload\<close>) or not (\<open>onerror\<close>). An
  exception inside \<open>onload\<close> is caught by nobody: the handler stops where it is thrown.
\<close>

definition sheet_name :: "browser \<Rightarrow> SheetSize \<Rightarrow> Layout \<Rightarrow> string" where
  "sheet_name b z l =
     ''passport-sheet-'' @ SheetSize_text z @ ''-'' @ Layout_text l @ ''-'' @ now b @ ''.jpg''"

definition sheet_file :: "browser \<Rightarrow> SheetSize \<Rightarrow> Layout \<Rightarrow> int \<Rightarrow> js_exn + File" where
  "sheet_file b z l photoCount =
     dataURLtoFile b (toDataURL b (sheetCanvas z l photoCount) ''image/jpeg'' (Some (95 / 100)))
       (sheet_name b z l)"

definition handleSheetGenerate ::
  "browser \<Rightarrow> bool \<Rightarrow> SheetSize \<Rightarrow> Layout \<Rightarrow> int \<Rightarrow> app_state \<Rightarrow> app_state" where
  "handleSheetGenerate b loaded z l photoCount s =
     (case currentImage s of
        None \<Rightarrow> s
      | Some cur \<Rightarrow>
          let s1 = s\<lparr>isLoading := True\<rparr>
          in if \<not> has2d b
             then s1\<lparr>error := Some ''Could not create canvas for sheet.'', isLoading := False\<rparr>
             else if loaded
             then (case sheet_file b z l photoCount of
                     Inr sheetFile \<Rightarrow>
                       (addImageToHistory sheetFile False s1)
                         \<lparr>isLoading := False, passportStep := Idle\<rparr>
                   | Inl err \<Rightarrow> s1)
             else s1\<lparr>error := Some ''Could not load image to generate sheet.'',
                      isLoading := False\<rparr>)"







subsection \<open>From sliders to an instruction (AdjustmentPanel.tsx, lines 43-125)\<close>

datatype AdjustmentKey =
  Brightness | Contrast | Saturation | Temperature | Sharpness | VignetteIntensity
  | VignetteFeather | ColorBalance

definition key_text :: "AdjustmentKey \<Rightarrow> string" where
  "key_text k =
     (case k of
        Brightness \<Rightarrow> ''brightness'' | Contrast \<Rightarrow> ''contrast''
      | Saturation \<Rightarrow> ''saturation'' | Temperature \<Rightarrow> ''temperature''
      | Sharpness \<Rightarrow> ''sharpness'' | VignetteIntensity \<Rightarrow> ''vignetteIntensity''
      | VignetteFeather \<Rightarrow> ''vignetteFeather'' | ColorBalance \<Rightarrow> ''colorBalance'')"

text \<open>\<open>Object.keys(adjustments)\<close>: the keys in the order the record declares them.\<close>

definition adjustment_keys :: "AdjustmentKey list" where
  "adjustment_keys =
     [Brightness, Contrast, Saturation, Temperature, Sharpness, VignetteIntensity,
      VignetteFeather, ColorBalance]"

definition adjustment_value :: "Adjustments \<Rightarrow> AdjustmentKey \<Rightarrow> int" where
  "adjustment_value a k =
     (case k of
        Brightness \<Rightarrow> brightness a | Contrast \<Rightarrow> contrast a
      | Saturation \<Rightarrow> saturation a | Temperature \<Rightarrow> temperature a
      | Sharpness \<Rightarrow> sharpness a | VignetteIntensity \<Rightarrow> vignetteIntensity a
      | VignetteFeather \<Rightarrow> vignetteFeather a | ColorBalance \<Rightarrow> colorBalance a)"

definition intensityMap :: "(int \<times> string) list" where
  "intensityMap =
     [(20, ''subtly''), (40, ''slightly''), (60, []), (80, ''significantly''),
      (100, ''dramatically'')]"

definition valueToText :: "AdjustmentKey \<Rightarrow> int \<Rightarrow> string option" where
  "valueToText key v =
     (if v = 0 then None
      else
        let absoluteValue = \<bar>v\<bar>;
            intensityKey = find (\<lambda>k. absoluteValue \<le> k) (map fst intensityMap);
            intensity =
              (case map_of intensityMap (case intensityKey of None \<Rightarrow> 60 | Some k \<Rightarrow> k) of
                 None \<Rightarrow> ''undefined''
               | Some t \<Rightarrow> t);
            direction = (if v > 0 then ''increase'' else ''decrease'')
        in (case key of
              Brightness \<Rightarrow> Some (direction @ '' the brightness '' @ intensity)
            | Contrast \<Rightarrow> Some (direction @ '' the contrast '' @ intensity)
            | Saturation \<Rightarrow> Some (direction @ '' the color saturation '' @ intensity)
            | Sharpness \<Rightarrow> Some (direction @ '' the sharpness '' @ intensity)
            | Temperature \<Rightarrow>
                Some (''make the image's color temperature '' @ intensity @ '' ''
                      @ (if v > 0 then ''warmer'' else ''cooler''))
            | VignetteIntensity \<Rightarrow>
                Some (''add a '' @ intensity @ '' '' @ (if v > 0 then ''dark'' else ''light'')
                      @ '' vignette'')
            | ColorBalance \<Rightarrow>
                Some (''shift the color balance '' @ intensity @ '' towards ''
                      @ (if v > 0 then ''green/cyan'' else ''magenta/red''))
            | VignetteFeather \<Rightarrow> None))"

text \<open>The \<open>forEach\<close> of lines 97-101: one key, and the parts pushed so far.\<close>

definition push_part :: "Adjustments \<Rightarrow> string list \<Rightarrow> AdjustmentKey \<Rightarrow> string list" where
  "push_part a parts key =
     (if js_startsWith (key_text key) ''vignette'' then parts
      else (case valueToText key (adjustment_value a key) of
              None \<Rightarrow> parts
            | Some part \<Rightarrow> if part = [] then parts else parts @ [part]))"

definition featherDesc :: "int \<Rightarrow> string" where
  "featherDesc featherValue =
     (if featherValue \<le> 25 then ''with a hard, distinct edge''
      else if featherValue \<le> 75 then ''with a medium, soft feather''
      else ''with a very soft, gradual feather'')"

definition generatedPrompt :: "Adjustments \<Rightarrow> string" where
  "generatedPrompt a =
     (let parts1 = foldl (push_part a) [] adjustment_keys;
          parts =
            (if vignetteIntensity a \<noteq> 0
             then parts1
                  @ [(case valueToText VignetteIntensity (vignetteIntensity a) of
                        None \<Rightarrow> ''null''
                      | Some vignettePrompt \<Rightarrow> vignettePrompt)
                     @ '' '' @ featherDesc (vignetteFeather a)]
             else parts1)
      in if length parts = 0 then []
         else if length parts = 1 then ''Apply the following adjustment: '' @ parts ! 0 @ ''.''
         else ''Apply the following adjustments: '' @ js_join '', '' (butlast parts)
              @ '', and '' @ last parts @ ''.'')"

text \<open>
  The reference the translator is compared with, written from the specification: the
  tier of a magnitude, the phrase of one slider, the phrases of a record in the order of
  the sliders with the vignette last, and the sentence built from them.
\<close>

definition spec_tier :: "int \<Rightarrow> string" where
  "spec_tier m =
     (if m \<le> 20 then ''subtly''
      else if m \<le> 40 then ''slightly''
      else if m \<le> 60 then []
      else if m \<le> 80 then ''significantly''
      else ''dramatically'')"

definition spec_direction :: "int \<Rightarrow> string" where
  "spec_direction v = (if v > 0 then ''increase'' else ''decrease'')"

fun spec_phrase :: "AdjustmentKey \<Rightarrow> int \<Rightarrow> string" where
  "spec_phrase Brightness v = spec_direction v @ '' the brightness '' @ spec_tier \<bar>v\<bar>"
| "spec_phrase Contrast v = spec_direction v @ '' the contrast '' @ spec_tier \<bar>v\<bar>"
| "spec_phrase Saturation v = spec_direction v @ '' the color saturation '' @ spec_tier \<bar>v\<bar>"
| "spec_phrase Sharpness v = spec_direction v @ '' the sharpness '' @ spec_tier \<bar>v\<bar>"
| "spec_phrase Temperature v =
     ''make the image's color temperature '' @ spec_tier \<bar>v\<bar> @ '' ''
     @ (if v > 0 then ''warmer'' else ''cooler'')"
| "spec_phrase VignetteIntensity v =
     ''add a '' @ spec_tier \<bar>v\<bar> @ '' '' @ (if v > 0 then ''dark'' else ''light'') @ '' vignette''"
| "spec_phrase ColorBalance v =
     ''shift the color balance '' @ spec_tier \<bar>v\<bar> @ '' towards ''
     @ (if v > 0 then ''green/cyan'' else ''magenta/red'')"
| "spec_phrase VignetteFeather v = []"

definition spec_feather :: "int \<Rightarrow> string" where
  "spec_feather f =
     (if f \<le> 25 then ''with a hard, distinct edge''
      else if f \<le> 75 then ''with a medium, soft feather''
      else ''with a very soft, gradual feather'')"

definition spec_phrases :: "Adjustments \<Rightarrow> string list" where
  "spec_phrases a =
     map (\<lambda>k. spec_phrase k (adjustment_value a k))
       (filter (\<lambda>k. adjustment_value a k \<noteq> 0)
          [Brightness, Contrast, Saturation, Temperature, Sharpness, ColorBalance])
     @ (if vignetteIntensity a \<noteq> 0
        then [spec_phrase VignetteIntensity (vignetteIntensity a) @ '' ''
              @ spec_feather (vignetteFeather a)]
        else [])"

fun spec_sentence :: "string list \<Rightarrow> string" where
  "spec_sentence [] = []"
| "spec_sentence [p] = ''Apply the following adjustment: '' @ p @ ''.''"
| "spec_sentence ps =
     ''Apply the following adjustments: '' @ js_join '', '' (butlast ps) @ '', and ''
     @ last ps @ ''.''"

definition spec_translate :: "Adjustments \<Rightarrow> string" where
  "spec_translate a = spec_sentence (spec_phrases a)"

text \<open>The sliders of the panel deliver integers from -100 to 100, the feather from 0.\<close>

definition slider_range :: "Adjustments \<Rightarrow> bool" where
  "slider_range a =
     (\<bar>brightness a\<bar> \<le> 100 \<and> \<bar>contrast a\<bar> \<le> 100 \<and> \<bar>saturation a\<bar> \<le> 100
      \<and> \<bar>temperature a\<bar> \<le> 100 \<and> \<bar>sharpness a\<bar> \<le> 100 \<and> \<bar>vignetteIntensity a\<bar> \<le> 100
      \<and> 0 \<le> vignetteFeather a \<and> vignetteFeather a \<le> 100 \<and> \<bar>colorBalance a\<bar> \<le> 100)"

text \<open>
  What is asked of an action that fails, from the state before it to the state after it:
  the sequence and the cursor are as they were, an error message is shown, and the app is
  not busy.
\<close>

definition failure_contained :: "app_state \<Rightarrow> app_state \<Rightarrow> bool" where
  "failure_contained s s' =
     (history s' = history s \<and> historyIndex s' = historyIndex s \<and> error s' \<noteq> None
      \<and> \<not> isLoading s')"

subsection \<open>Sample collaborators\<close>

text \<open>
  A browser and two services to run the handlers on: the browser serialises every canvas
  to the payload \<open>AAAA\<close> and decodes every payload to itself; one service answers every
  request with a small PNG data URL, the other rejects every request.
\<close>

definition sample_encode :: "canvas \<Rightarrow> string \<Rightarrow> rat option \<Rightarrow> string" where
  "sample_encode cv ty quality = ''AAAA''"

definition sample_browser :: browser where
  "sample_browser =
     \<lparr>devicePixelRatio = 1, has2d = True, encode = sample_encode, atob = Inr,
      now = ''1700000000000''\<rparr>"

definition answer1 :: "File \<Rightarrow> js_exn + string" where
  "answer1 f = Inr ''data:image/png;base64,AAAA''"

definition answer2 :: "File \<Rightarrow> string \<Rightarrow> js_exn + string" where
  "answer2 f p = Inr ''data:image/png;base64,AAAA''"

definition answer3 :: "File \<Rightarrow> string \<Rightarrow> int \<times> int \<Rightarrow> js_exn + string" where
  "answer3 f p h = Inr ''data:image/png;base64,AAAA''"

definition sample_service :: service where
  "sample_service =
     \<lparr>generateEditedImage = answer3, generateFilteredImage = answer2,
      generateAdjustedImage = answer2, generateUpscaledImage = answer1,
      generatePassportPhoto = answer2, generateAutoAdjustedImage = answer1\<rparr>"

definition reject1 :: "File \<Rightarrow> js_exn + string" where
  "reject1 f = Inl (Error ''quota exceeded'')"

definition reject2 :: "File \<Rightarrow> string \<Rightarrow> js_exn + string" where
  "reject2 f p = Inl (Error ''quota exceeded'')"

definition reject3 :: "File \<Rightarrow> string \<Rightarrow> int \<times> int \<Rightarrow> js_exn + string" where
  "reject3 f p h = Inl (Error ''quota exceeded'')"

definition failing_service :: service where
  "failing_service =
     \<lparr>generateEditedImage = reject3, generateFilteredImage = reject2,
      generateAdjustedImage = reject2, generateUpscaledImage = reject1,
      generatePassportPhoto = reject2, generateAutoAdjustedImage = reject1\<rparr>"

definition sample_photo :: File where
  "sample_photo = File ''photo'' ''me.png'' ''image/png''"

text \<open>An image shown at half its natural size, and crops of it.\<close>

definition sample_element :: image_element where
  "sample_element = \<lparr>naturalWidth = 800, naturalHeight = 600, img_width = 400, img_height = 300\<rparr>"

definition sample_crop :: PixelCrop where
  "sample_crop = \<lparr>crop_x = 10, crop_y = 20, crop_width = 70, crop_height = 90\<rparr>"

definition empty_crop :: PixelCrop where
  "empty_crop = \<lparr>crop_x = 10, crop_y = 20, crop_width = 0, crop_height = 0\<rparr>"

text \<open>
  A passport session: upload a photo, choose the passport tab, drag a crop, confirm it,
  change the background, generate a sheet of one photo on 4x6 paper. \<open>cropping_state\<close> is
  the state after the first two steps, \<open>sheet_state\<close> the state before the last one.
\<close>

definition cropping_state :: app_state where
  "cropping_state =
     initial_state\<lparr>history := [sample_photo], historyIndex := 0, activeTab := Passport,
                   aspect := Some (7 / 9), passportStep := Cropping\<rparr>"

definition sheet_state :: app_state where
  "sheet_state =
     cropping_state
       \<lparr>history := [sample_photo, File ''AAAA'' ''passport-1700000000000.png'' ''image/png''],
        historyIndex := 1, passportStep := Sheet,
        passportCroppedImage :=
          Some (File ''AAAA'' ''passport-crop-1700000000000.png'' ''image/png'')\<rparr>"

definition passport_session :: app_state where
  "passport_session =
     handleSheetGenerate sample_browser True S4x6 Portrait 1
       (handlePassportBgChange sample_service sample_browser ''White''
          (confirmCrop_click sample_browser (Some sample_element)
             ((setActiveTab Passport (handleImageUpload sample_photo initial_state))
                \<lparr>completedCrop := Some sample_crop\<rparr>)))"

section \<open>The edit history\<close>

lemma history_resetTransientState [simp]:
  "history (resetTransientState s) = history s"
  "historyIndex (resetTransientState s) = historyIndex s"
  by (simp_all add: resetTransientState_def)

lemma js_slice0_take: "- 1 \<le> i \<Longrightarrow> js_slice0 xs (i + 1) = take (nat (i + 1)) xs"
  by (auto simp: js_slice0_def Let_def min_def)

lemma history_addImageToHistory:
  "history (addImageToHistory f r s) = js_slice0 (history s) (historyIndex s + 1) @ [f]"
  by (simp add: addImageToHistory_def Let_def)

lemma historyIndex_addImageToHistory:
  "historyIndex (addImageToHistory f r s)
     = int (length (js_slice0 (history s) (historyIndex s + 1)))"
  by (simp add: addImageToHistory_def Let_def)

text \<open>
  Claim C1. Committing a new image onto a history whose cursor is an index or the
  sentinel -1 keeps the first cursor+1 entries, appends the image and moves the cursor to
  the new last index, so the new image is the current one; and after a commit, whatever
  number of undos came before it, redo is unavailable.
\<close>

theorem commit_truncates_appends:
  assumes "- 1 \<le> historyIndex s"
  shows "history (addImageToHistory f r s) = take (nat (historyIndex s + 1)) (history s) @ [f]
       \<and> historyIndex (addImageToHistory f r s)
           = int (length (history (addImageToHistory f r s))) - 1
       \<and> currentImage (addImageToHistory f r s) = Some f
       \<and> (\<forall>n. \<not> canRedo (addImageToHistory f r ((handleUndo ^^ n) s)))"
proof -
  have h: "history (addImageToHistory f r s) = take (nat (historyIndex s + 1)) (history s) @ [f]"
    using assms by (simp add: history_addImageToHistory js_slice0_take)
  have i: "historyIndex (addImageToHistory f r t)
             = int (length (history (addImageToHistory f r t))) - 1" for t
    by (simp add: history_addImageToHistory historyIndex_addImageToHistory)
  have c: "currentImage (addImageToHistory f r s) = Some f"
    unfolding currentImage_def i by (simp add: js_index_def history_addImageToHistory nth_append)
  have r: "\<not> canRedo (addImageToHistory f r t)" for t
    unfolding canRedo_def i by simp
  show ?thesis using h i c r by blast
qed

theorem commit_truncates_appends_witness:
  "history (addImageToHistory (File ''c'' ''c.png'' ''image/png'') False
      (handleUndo (initial_state\<lparr>history := [File ''a'' ''a.png'' ''image/png'',
                                              File ''b'' ''b.png'' ''image/png''],
                                  historyIndex := 1\<rparr>)))
   = [File ''a'' ''a.png'' ''image/png'', File ''c'' ''c.png'' ''image/png'']"
  using commit_truncates_appends
    [of "handleUndo (initial_state\<lparr>history := [File ''a'' ''a.png'' ''image/png'',
                                                File ''b'' ''b.png'' ''image/png''],
                                    historyIndex := 1\<rparr>)"
        "File ''c'' ''c.png'' ''image/png''" False]
  by (simp add: handleUndo_def canUndo_def initial_state_def)

lemma handleUndo_fields:
  "0 < historyIndex s \<Longrightarrow> historyIndex (handleUndo s) = historyIndex s - 1"
  "history (handleUndo s) = history s"
  "historyIndex s \<le> 0 \<Longrightarrow> handleUndo s = s"
  by (simp_all add: handleUndo_def canUndo_def)

lemma handleRedo_fields:
  "historyIndex s < int (length (history s)) - 1 \<Longrightarrow> historyIndex (handleRedo s) = historyIndex s + 1"
  "history (handleRedo s) = history s"
  "int (length (history s)) - 1 \<le> historyIndex s \<Longrightarrow> handleRedo s = s"
  by (simp_all add: handleRedo_def canRedo_def)

text \<open>
  Claim C4. Undo does nothing when the cursor is 0 and otherwise moves it one entry back;
  redo does nothing when the cursor is at the last index and otherwise moves it one entry
  forward; neither changes the sequence. Hence from a cursor above 0 that is an index of
  the sequence, undo followed by redo brings back the cursor and the current image.
\<close>

theorem undo_redo_cursor:
  "(historyIndex s = 0 \<longrightarrow> handleUndo s = s)
   \<and> (0 < historyIndex s \<longrightarrow>
        historyIndex (handleUndo s) = historyIndex s - 1 \<and> history (handleUndo s) = history s)
   \<and> (historyIndex s = int (length (history s)) - 1 \<longrightarrow> handleRedo s = s)
   \<and> (historyIndex s < int (length (history s)) - 1 \<longrightarrow>
        historyIndex (handleRedo s) = historyIndex s + 1 \<and> history (handleRedo s) = history s)
   \<and> (0 < historyIndex s \<and> historyIndex s < int (length (history s)) \<longrightarrow>
        history (handleRedo (handleUndo s)) = history s
        \<and> historyIndex (handleRedo (handleUndo s)) = historyIndex s
        \<and> currentImage (handleRedo (handleUndo s)) = currentImage s)"
proof -
  have "currentImage (handleRedo (handleUndo s)) = currentImage s
        \<and> historyIndex (handleRedo (handleUndo s)) = historyIndex s"
    if "0 < historyIndex s" "historyIndex s < int (length (history s))"
    using that by (simp add: currentImage_def handleRedo_fields handleUndo_fields)
  then show ?thesis
    by (simp add: handleRedo_fields handleUndo_fields)
qed

theorem undo_redo_cursor_witness:
  "currentImage (handleRedo (handleUndo
      (initial_state\<lparr>history := [File ''a'' ''a.png'' ''image/png'',
                                  File ''b'' ''b.png'' ''image/png''],
                      historyIndex := 1\<rparr>)))
   = Some (File ''b'' ''b.png'' ''image/png'')"
  using undo_redo_cursor
    [of "initial_state\<lparr>history := [File ''a'' ''a.png'' ''image/png'',
                                    File ''b'' ''b.png'' ''image/png''],
                        historyIndex := 1\<rparr>"]
  by (simp add: currentImage_def js_index_def initial_state_def)

lemma handleRedo_iter:
  "historyIndex s + int n < int (length (history s)) \<Longrightarrow>
   historyIndex ((handleRedo ^^ n) s) = historyIndex s + int n
   \<and> history ((handleRedo ^^ n) s) = history s"
proof (induction n)
  case 0
  then show ?case by simp
next
  case (Suc n)
  then have ih: "historyIndex ((handleRedo ^^ n) s) = historyIndex s + int n"
    "history ((handleRedo ^^ n) s) = history s" by simp_all
  with Suc.prems show ?case by (simp add: handleRedo_fields)
qed

text \<open>
  Claim C5. Reset to the original does nothing on an empty history; on a non-empty one
  it sets the cursor to 0 and keeps every entry. Hence, when the cursor was the index
  \<open>n\<close>, reset followed by \<open>n\<close> redos brings back the cursor and the current image.
\<close>

theorem reset_keeps_sequence:
  "(history s = [] \<longrightarrow> handleReset s = s)
   \<and> (history s \<noteq> [] \<longrightarrow>
        historyIndex (handleReset s) = 0 \<and> history (handleReset s) = history s)
   \<and> (0 \<le> historyIndex s \<and> historyIndex s < int (length (history s)) \<longrightarrow>
        history ((handleRedo ^^ nat (historyIndex s)) (handleReset s)) = history s
        \<and> historyIndex ((handleRedo ^^ nat (historyIndex s)) (handleReset s)) = historyIndex s
        \<and> currentImage ((handleRedo ^^ nat (historyIndex s)) (handleReset s)) = currentImage s)"
proof -
  have r: "historyIndex (handleReset s) = 0 \<and> history (handleReset s) = history s"
    if "history s \<noteq> []"
    using that by (simp add: handleReset_def)
  have "history ((handleRedo ^^ nat (historyIndex s)) (handleReset s)) = history s
        \<and> historyIndex ((handleRedo ^^ nat (historyIndex s)) (handleReset s)) = historyIndex s"
    if "0 \<le> historyIndex s" "historyIndex s < int (length (history s))"
  proof -
    from that have "history s \<noteq> []" by auto
    with r that handleRedo_iter [of "handleReset s" "nat (historyIndex s)"]
    show ?thesis by simp
  qed
  then show ?thesis using r by (simp add: currentImage_def handleReset_def)
qed

theorem reset_keeps_sequence_witness:
  "currentImage ((handleRedo ^^ 2) (handleReset
      (initial_state\<lparr>history := [File ''a'' ''a.png'' ''image/png'',
                                  File ''b'' ''b.png'' ''image/png'',
                                  File ''c'' ''c.png'' ''image/png''],
                      historyIndex := 2\<rparr>)))
   = Some (File ''c'' ''c.png'' ''image/png'')"
  using reset_keeps_sequence
    [of "initial_state\<lparr>history := [File ''a'' ''a.png'' ''image/png'',
                                  File ''b'' ''b.png'' ''image/png'',
                                  File ''c'' ''c.png'' ''image/png''],
                        historyIndex := 2\<rparr>"]
  by (simp add: currentImage_def js_index_def initial_state_def)

subsection \<open>The cursor stays an index\<close>

lemma history_inv_addImageToHistory: "history_inv (addImageToHistory f r s)"
  by (simp add: history_inv_def history_addImageToHistory historyIndex_addImageToHistory)

text \<open>Every handler keeps the invariant of the history.\<close>

lemma history_inv_kept:
  assumes "history_inv s"
  shows "history_inv (setActiveTab t s)"
    and "history_inv (handleImageUpload f s)"
    and "history_inv (handleUploadNew s)"
    and "history_inv (handleUndo s)"
    and "history_inv (handleRedo s)"
    and "history_inv (handleReset s)"
    and "history_inv (handleGenerate svc b s)"
    and "history_inv (handleApplyFilter svc b p s)"
    and "history_inv (handleApplyAdjustment svc b p s)"
    and "history_inv (handleAutoAdjust svc b s)"
    and "history_inv (handleUpscale svc b s)"
    and "history_inv (handleApplyCrop b imgRef s)"
    and "history_inv (confirmCrop_click b imgRef s)"
    and "history_inv (handlePassportBgChange svc b col s)"
    and "history_inv (handlePassportReset s)"
    and "history_inv (handleSheetGenerate b loaded z l n s)"
  using assms
  by (auto simp: history_inv_def setActiveTab_def after_render_def activeTab_effect_def
      handleImageUpload_def handleUploadNew_def handleUndo_def handleRedo_def handleReset_def
      canUndo_def canRedo_def resetTransientState_def
      handleGenerate_def handleApplyFilter_def handleApplyAdjustment_def handleAutoAdjust_def
      handleUpscale_def handleApplyCrop_def confirmCrop_click_def handlePassportCrop_def
      handlePassportBgChange_def handlePassportReset_def handleSheetGenerate_def Let_def
      history_addImageToHistory historyIndex_addImageToHistory
      split: option.splits sum.splits)

lemma history_inv_initial: "history_inv initial_state"
  by (simp add: history_inv_def initial_state_def)

section \<open>Rounding to doubles\<close>

lemma scale_down_small: "m < 9007199254740992 \<Longrightarrow> scale_down m e = (m, e)"
  by (subst scale_down.simps) simp

lemma scale_up_exact:
  assumes "0 < m" "4503599627370496 \<le> m * 2 ^ k" "m * 2 ^ k < 9007199254740992"
    and "- 1074 \<le> e - int k"
  shows "scale_up m e = (m * 2 ^ k, e - int k)"
  using assms
proof (induction k arbitrary: m e)
  case 0
  then show ?case by (subst scale_up.simps) simp
next
  case (Suc k)
  have le: "m \<le> m * 2 ^ k" using Suc.prems(1) by simp
  have lt: "m * 2 ^ k < 4503599627370496" using Suc.prems(3) by simp
  from le lt have small: "m < 4503599627370496" by linarith
  have e: "- 1074 < e" using Suc.prems(4) by simp
  have "scale_up (m * 2) (e - 1) = (m * 2 * 2 ^ k, e - 1 - int k)"
    using Suc.prems by (intro Suc.IH) (simp_all add: mult.assoc)
  with small e show ?case
    by (subst scale_up.simps) (simp add: mult.assoc)
qed

lemma round_half_even_eqI:
  assumes "of_int n - 1 / 2 < x" "x < of_int n + 1 / 2"
  shows "round_half_even x = n"
proof -
  have "\<lfloor>x\<rfloor> = n \<or> \<lfloor>x\<rfloor> = n - 1"
    using assms by (auto simp: floor_eq_iff)
  then show ?thesis
  proof
    assume f: "\<lfloor>x\<rfloor> = n"
    with assms show ?thesis by (simp add: round_half_even_def Let_def)
  next
    assume f: "\<lfloor>x\<rfloor> = n - 1"
    with assms show ?thesis by (simp add: round_half_even_def Let_def)
  qed
qed

lemma round_half_even_of_int [simp]: "round_half_even (of_int n) = n"
  by (rule round_half_even_eqI) simp_all

lemma round_half_even_numeral [simp]: "round_half_even (numeral w) = numeral w"
  using round_half_even_of_int [of "numeral w"] by simp

text \<open>
  A positive number below \<open>2^53\<close> that \<open>k\<close> doublings bring into \<open>[2^52, 2^53)\<close>
  rounds to the nearest multiple of \<open>2^-k\<close>.
\<close>

lemma binary64_scaled:
  assumes "0 < x" "4503599627370496 \<le> x * 2 ^ k" "x * 2 ^ k < 9007199254740992"
    and "k \<le> 1074"
  shows "binary64 x = Some (of_int (round_half_even (x * 2 ^ k)) / 2 ^ k)"
proof -
  have "x \<le> x * 2 ^ k" using assms(1) by simp
  with assms(3) have "x < 9007199254740992" by linarith
  then have d: "scale_down x 0 = (x, 0)"
    by (simp add: scale_down_small)
  have u: "scale_up x 0 = (x * 2 ^ k, - int k)"
    using scale_up_exact [OF assms(1-3), of 0] assms(4) by simp
  show ?thesis
    using assms(1) by (simp add: binary64_def d u power_int_minus field_simps)
qed

lemma binary64_0: "binary64 0 = Some 0"
  by (simp add: binary64_def)

lemma binary64_eqI:
  assumes "0 < x" "4503599627370496 \<le> x * 2 ^ k" "x * 2 ^ k < 9007199254740992"
    and "k \<le> 1074" "of_int n - 1 / 2 < x * 2 ^ k" "x * 2 ^ k < of_int n + 1 / 2"
    and "v = of_int n / 2 ^ k"
  shows "binary64 x = Some v"
  using binary64_scaled [OF assms(1-4)] round_half_even_eqI [OF assms(5,6)] assms(7)
  by simp

text \<open>
  Rounding matters: the doubles nearest to 100.8 and 1.25 have a product just below 126
  that rounds to 126, and the nearest doubles of the page sizes in inches give whole
  numbers of pixels at 300 dots per inch.
\<close>

lemma binary64_examples:
  "binary64 (504 / 5) = Some (7093169413108531 / 70368744177664)"
  "js_times (Some (7093169413108531 / 70368744177664)) (Some (5 / 4)) = Some 126"
  "binary64 (827 / 100) = Some (2327798057397125 / 281474976710656)"
  "js_times (Some (2327798057397125 / 281474976710656)) (Some 300) = Some 2481"
  "binary64 (1169 / 100) = Some (6580884955495137 / 562949953421312)"
  "js_times (Some (6580884955495137 / 562949953421312)) (Some 300) = Some 3507"
  unfolding js_times_def prod.case option.case
  apply (rule binary64_eqI [where k = 46 and n = 7093169413108531]; simp)
  apply (rule binary64_eqI [where k = 46 and n = 8866461766385664]; simp)
  apply (rule binary64_eqI [where k = 49 and n = 4655596114794250]; simp)
  apply (rule binary64_eqI [where k = 41 and n = 5455776697024512]; simp)
  apply (rule binary64_eqI [where k = 49 and n = 6580884955495137]; simp)
  apply (rule binary64_eqI [where k = 41 and n = 7711974557220864]; simp)
  done

lemma binary64_whole:
  "binary64 2 = Some 2" "binary64 70 = Some 70" "binary64 90 = Some 90"
  apply (rule binary64_eqI [where k = 51 and n = 4503599627370496]; simp)
  apply (rule binary64_eqI [where k = 46 and n = 4925812092436480]; simp)
  apply (rule binary64_eqI [where k = 46 and n = 6333186975989760]; simp)
  done

section \<open>Cropping to a file\<close>

lemma set_canvas_dim_floor:
  "0 \<le> v \<Longrightarrow> v < 2147483648 \<Longrightarrow> set_canvas_dim d (Some v) = nat \<lfloor>v\<rfloor>"
proof -
  assume a: "0 \<le> v" "v < 2147483648"
  then have "0 \<le> \<lfloor>v\<rfloor>" "\<lfloor>v\<rfloor> < 2147483648" by (simp_all add: floor_less_iff)
  then show ?thesis using a by (simp add: set_canvas_dim_def Let_def)
qed

lemma js_split_head:
  "js_split c s \<noteq> [] \<and> hd (js_split c s) = takeWhile (\<lambda>d. d \<noteq> c) s"
  by (induction s) (auto split: list.splits)

lemma js_split_payload:
  "js_split c s \<noteq> []" "js_split c s ! 0 = takeWhile (\<lambda>d. d \<noteq> c) s"
  using js_split_head [of c s] by (cases "js_split c s"; simp)+

text \<open>A data URL of a canvas with pixels becomes the file of its bytes.\<close>

lemma dataURLtoFile_png:
  "dataURLtoFile b (''data:image/png;base64,'' @ enc) n =
     (case atob b (takeWhile (\<lambda>d. d \<noteq> CHR '','') enc) of
        Inl e \<Rightarrow> Inl e
      | Inr bits \<Rightarrow> Inr (File bits n ''image/png''))"
  using js_split_payload [of "CHR '',''" enc]
  by (simp add: dataURLtoFile_def Let_def line_terminator_def)


lemma dataURLtoFile_empty:
  "dataURLtoFile b ''data:,'' n = Inl (Error ''Could not parse MIME type from data URL'')"
  by (simp add: dataURLtoFile_def)

lemma floor_pixel:
  fixes w :: rat
  assumes "0 \<le> w"
  shows "(nat \<lfloor>w\<rfloor> = 0) = (w < 1)"
proof -
  have "(nat \<lfloor>w\<rfloor> = 0) = (\<lfloor>w\<rfloor> \<le> 0)" by auto
  also have "\<dots> = (\<lfloor>w\<rfloor> < 1)" by auto
  also have "\<dots> = (w < 1)" by (simp add: floor_less_iff)
  finally show ?thesis .
qed

text \<open>
  Claim C2, as the code has it. Let W and H be the sides of the crop rectangle in
  displayed coordinates and p the device pixel ratio (1 when the browser reports 0), and
  let the products W * p and H * p, rounded as doubles, lie between 0 and \<open>2^31\<close>. The
  canvas that crop-to-file serialises measures W * p by H * p pixels, rounded down,
  whatever the scale factors natural/displayed, which only select the region of the
  source that is drawn into it. With a drawing context and both sides of at least one
  pixel the operation returns the PNG file of the bytes of that canvas (or the error of
  decoding them); with a side below one pixel it returns no file but the error of an
  unparsable data URL; without a drawing context it returns the error of that.
\<close>

theorem crop_output_size:
  assumes "js_times (Some (crop_width c)) (Some (pixelRatio b)) = Some w"
    and "js_times (Some (crop_height c)) (Some (pixelRatio b)) = Some h"
    and "0 \<le> w" "w < 2147483648" "0 \<le> h" "h < 2147483648"
  shows "canvas_width (cropCanvas b img c) = nat \<lfloor>w\<rfloor>
       \<and> canvas_height (cropCanvas b img c) = nat \<lfloor>h\<rfloor>
       \<and> cropImageToFile b img c fileName =
           (if \<not> has2d b then Inl (Error ''Could not get canvas context'')
            else if w < 1 \<or> h < 1
            then Inl (Error ''Could not parse MIME type from data URL'')
            else (case canvas_bytes b (cropCanvas b img c) ''image/png'' None of
                    Inl e \<Rightarrow> Inl e
                  | Inr bits \<Rightarrow> Inr (File bits fileName ''image/png'')))
       \<and> (js_times (Some (crop_x c)) (scaleX img) = Some sx
            \<and> js_times (Some (crop_y c)) (scaleY img) = Some sy
            \<and> js_times (Some (crop_width c)) (scaleX img) = Some sw
            \<and> js_times (Some (crop_height c)) (scaleY img) = Some sh \<longrightarrow>
            last (drawn (cropCanvas b img c))
              = DrawImageSub sx sy sw sh 0 0 (crop_width c) (crop_height c))"
proof -
  have cw: "canvas_width (cropCanvas b img c) = nat \<lfloor>w\<rfloor>"
    and ch: "canvas_height (cropCanvas b img c) = nat \<lfloor>h\<rfloor>"
    using assms by (simp_all add: cropCanvas_def set_canvas_dim_floor)
  have made: "cropImageToFile b img c fileName =
           (if \<not> has2d b then Inl (Error ''Could not get canvas context'')
            else if w < 1 \<or> h < 1
            then Inl (Error ''Could not parse MIME type from data URL'')
            else (case canvas_bytes b (cropCanvas b img c) ''image/png'' None of
                    Inl e \<Rightarrow> Inl e
                  | Inr bits \<Rightarrow> Inr (File bits fileName ''image/png'')))"
    using floor_pixel [OF assms(3)] floor_pixel [OF assms(5)]
    by (simp add: cropImageToFile_def toDataURL_def cw ch canvas_bytes_def
        dataURLtoFile_empty dataURLtoFile_png [simplified])
  have draw: "js_times (Some (crop_x c)) (scaleX img) = Some sx
            \<and> js_times (Some (crop_y c)) (scaleY img) = Some sy
            \<and> js_times (Some (crop_width c)) (scaleX img) = Some sw
            \<and> js_times (Some (crop_height c)) (scaleY img) = Some sh \<longrightarrow>
            last (drawn (cropCanvas b img c))
              = DrawImageSub sx sy sw sh 0 0 (crop_width c) (crop_height c)"
    by (simp add: cropCanvas_def)
  show ?thesis
    by (intro conjI) (fact cw ch made draw)+
qed

lemma sample_products:
  "js_times (Some (crop_width sample_crop)) (Some (pixelRatio sample_browser)) = Some 70"
  "js_times (Some (crop_height sample_crop)) (Some (pixelRatio sample_browser)) = Some 90"
  by (simp_all add: js_times_def sample_crop_def sample_browser_def pixelRatio_def
      binary64_whole)

theorem crop_output_size_witness:
  "canvas_width (cropCanvas sample_browser sample_element sample_crop) = 70
   \<and> canvas_height (cropCanvas sample_browser sample_element sample_crop) = 90
   \<and> cropImageToFile sample_browser sample_element sample_crop ''crop.png''
       = Inr (File ''AAAA'' ''crop.png'' ''image/png'')"
  using crop_output_size [OF sample_products, of sample_element "''crop.png''"]
  by (simp add: canvas_bytes_def sample_browser_def sample_encode_def)

text \<open>
  The claim as the specification words it asks for W * S * p by H * S * p pixels. An
  image shown at half its natural size (S = 2) and a crop of 70 by 90 at pixel ratio 1
  give the file of a canvas of 70 by 90, not of 140 by 180.
\<close>

theorem crop_output_size_counterexample:
  "scaleX sample_element = Some 2 \<and> scaleY sample_element = Some 2
   \<and> devicePixelRatio sample_browser = 1
   \<and> cropImageToFile sample_browser sample_element sample_crop ''crop.png''
       = Inr (File ''AAAA'' ''crop.png'' ''image/png'')
   \<and> rat_of_nat (canvas_width (cropCanvas sample_browser sample_element sample_crop))
        \<noteq> crop_width sample_crop * 2 * devicePixelRatio sample_browser
   \<and> rat_of_nat (canvas_height (cropCanvas sample_browser sample_element sample_crop))
        \<noteq> crop_height sample_crop * 2 * devicePixelRatio sample_browser"
proof -
  have s: "scaleX sample_element = Some 2" "scaleY sample_element = Some 2"
    by (simp_all add: scaleX_def scaleY_def js_div_def sample_element_def binary64_whole)
  have d: "canvas_width (cropCanvas sample_browser sample_element sample_crop) = 70"
    "canvas_height (cropCanvas sample_browser sample_element sample_crop) = 90"
    by (simp_all add: cropCanvas_def sample_products set_canvas_dim_def)
  have f: "cropImageToFile sample_browser sample_element sample_crop ''crop.png''
       = Inr (File ''AAAA'' ''crop.png'' ''image/png'')"
    by (simp add: cropImageToFile_def toDataURL_def d)
       (simp add: sample_browser_def sample_encode_def
          dataURLtoFile_png [of _ "''AAAA''", simplified])
  show ?thesis
    using s d f by (simp add: sample_browser_def sample_crop_def)
qed

text \<open>
  The two doubles 100.8 and 1.25 as a crop width and a pixel ratio: the canvas is 126
  pixels wide, as the rounded product has it, where the exact product gives 125.
\<close>

lemma crop_rounds_as_doubles:
  "set_canvas_dim 300
     (js_times (Some (7093169413108531 / 70368744177664)) (Some (5 / 4))) = 126"
  "\<lfloor>(7093169413108531 / 70368744177664 :: rat) * (5 / 4)\<rfloor> = 125"
  by (simp_all add: binary64_examples set_canvas_dim_def floor_eq_iff)

section \<open>The passport workflow\<close>

lemma cropImageToFile_empty:
  "crop_width c = 0 \<Longrightarrow> \<exists>e. cropImageToFile b img c n = Inl e"
  by (simp add: cropImageToFile_def toDataURL_def cropCanvas_def js_times_def binary64_0
      set_canvas_dim_def dataURLtoFile_empty)

lemma handlePassportCrop_empty:
  assumes "completedCrop s = Some c" "crop_width c = 0"
  shows "passportStep (handlePassportCrop b imgRef s) = passportStep s
       \<and> passportCroppedImage (handlePassportCrop b imgRef s) = passportCroppedImage s
       \<and> history (handlePassportCrop b imgRef s) = history s
       \<and> historyIndex (handlePassportCrop b imgRef s) = historyIndex s"
proof (cases imgRef)
  case None
  then show ?thesis using assms by (simp add: handlePassportCrop_def)
next
  case (Some img)
  from cropImageToFile_empty [OF assms(2)]
  obtain e where "cropImageToFile b img c (''passport-crop-'' @ now b @ ''.png'') = Inl e"
    by blast
  with Some assms show ?thesis by (simp add: handlePassportCrop_def)
qed

text \<open>
  Claim C8. Choosing the passport tab from any other tab puts the workflow into
  \<open>cropping\<close> and locks the aspect ratio of the crop to 7/9. In \<open>cropping\<close>, a completed
  crop rectangle of width 0 is not accepted: the Confirm Crop button is disabled (the
  click changes nothing), and the handler itself, were it called, fails on the empty
  canvas and leaves the workflow in \<open>cropping\<close> with no cropped passport image.
\<close>

theorem passport_entry_and_empty_crop:
  "(activeTab s \<noteq> Passport \<longrightarrow>
      activeTab (setActiveTab Passport s) = Passport
      \<and> passportStep (setActiveTab Passport s) = Cropping
      \<and> aspect (setActiveTab Passport s) = Some (7 / 9))
   \<and> (passportStep s = Cropping \<and> passportCroppedImage s = None
        \<and> completedCrop s = Some c \<and> crop_width c = 0 \<longrightarrow>
        confirmCrop_click b imgRef s = s
        \<and> passportStep (handlePassportCrop b imgRef s) = Cropping
        \<and> passportCroppedImage (handlePassportCrop b imgRef s) = None)"
proof -
  have "activeTab (setActiveTab Passport s) = Passport
      \<and> passportStep (setActiveTab Passport s) = Cropping
      \<and> aspect (setActiveTab Passport s) = Some (7 / 9)" if "activeTab s \<noteq> Passport"
    using that
    by (simp add: setActiveTab_def after_render_def activeTab_effect_def resetTransientState_def)
  moreover have "confirmCrop_click b imgRef s = s"
    if "completedCrop s = Some c" "crop_width c = 0"
    using that by (simp add: confirmCrop_click_def isCropping_def)
  ultimately show ?thesis
    using handlePassportCrop_empty [of s c b imgRef] by auto
qed

theorem passport_entry_and_empty_crop_witness:
  "passportStep (setActiveTab Passport (handleImageUpload sample_photo initial_state)) = Cropping
   \<and> aspect (setActiveTab Passport (handleImageUpload sample_photo initial_state)) = Some (7 / 9)
   \<and> passportStep (handlePassportCrop sample_browser (Some sample_element)
        ((setActiveTab Passport (handleImageUpload sample_photo initial_state))
           \<lparr>completedCrop := Some empty_crop\<rparr>)) = Cropping
   \<and> passportCroppedImage (handlePassportCrop sample_browser (Some sample_element)
        ((setActiveTab Passport (handleImageUpload sample_photo initial_state))
           \<lparr>completedCrop := Some empty_crop\<rparr>)) = None"
proof -
  have a: "activeTab (handleImageUpload sample_photo initial_state) \<noteq> Passport"
    by (simp add: handleImageUpload_def after_render_def initial_state_def
        resetTransientState_def activeTab_effect_def)
  have b: "passportCroppedImage
             (setActiveTab Passport (handleImageUpload sample_photo initial_state)) = None"
    by (simp add: setActiveTab_def handleImageUpload_def after_render_def initial_state_def
        resetTransientState_def activeTab_effect_def)
  have c: "crop_width empty_crop = 0" by (simp add: empty_crop_def)
  from a passport_entry_and_empty_crop [of "handleImageUpload sample_photo initial_state"]
  have d: "passportStep (setActiveTab Passport (handleImageUpload sample_photo initial_state))
             = Cropping
    \<and> aspect (setActiveTab Passport (handleImageUpload sample_photo initial_state))
        = Some (7 / 9)"
    by simp
  with b c passport_entry_and_empty_crop
    [of "(setActiveTab Passport (handleImageUpload sample_photo initial_state))
           \<lparr>completedCrop := Some empty_crop\<rparr>" empty_crop sample_browser "Some sample_element"]
  show ?thesis by simp
qed

lemma dataURLtoFile_sample:
  "dataURLtoFile sample_browser ''data:image/png;base64,AAAA'' n
     = Inr (File ''AAAA'' n ''image/png'')"
  by (simp add: dataURLtoFile_def sample_browser_def line_terminator_def)

lemma dataURLtoFile_sample_jpeg:
  "dataURLtoFile sample_browser ''data:image/jpeg;base64,AAAA'' n
     = Inr (File ''AAAA'' n ''image/jpeg'')"
  by (simp add: dataURLtoFile_def sample_browser_def line_terminator_def)

lemma session_upload_and_tab:
  "setActiveTab Passport (handleImageUpload sample_photo initial_state) = cropping_state"
  by (simp add: setActiveTab_def handleImageUpload_def after_render_def activeTab_effect_def
      initial_state_def resetTransientState_def cropping_state_def)

lemma session_crop_and_background:
  "handlePassportBgChange sample_service sample_browser ''White''
     (confirmCrop_click sample_browser (Some sample_element)
        (cropping_state\<lparr>completedCrop := Some sample_crop\<rparr>)) = sheet_state"
  apply (simp add: confirmCrop_click_def isCropping_def cropping_state_def initial_state_def
      handlePassportCrop_def cropImageToFile_def sample_crop_def)
  apply (simp add: toDataURL_def cropCanvas_def js_times_def pixelRatio_def binary64_whole
      set_canvas_dim_def sample_browser_def sample_encode_def)
  apply (simp add: dataURLtoFile_sample [unfolded sample_browser_def])
  apply (simp add: handlePassportBgChange_def resetTransientState_def sample_service_def
      answer2_def js_then_def dataURLtoFile_sample [unfolded sample_browser_def]
      addImageToHistory_def js_slice0_def sheet_state_def cropping_state_def
      initial_state_def)
  done

lemma session_sheet:
  "passportStep (handleSheetGenerate sample_browser True S4x6 Portrait 1 sheet_state) = Idle
   \<and> passportCroppedImage (handleSheetGenerate sample_browser True S4x6 Portrait 1 sheet_state)
       = Some (File ''AAAA'' ''passport-crop-1700000000000.png'' ''image/png'')"
  apply (simp add: handleSheetGenerate_def sheet_state_def cropping_state_def
      initial_state_def currentImage_def js_index_def)
  apply (simp add: sheet_file_def sample_browser_def toDataURL_def sheetCanvas_def set_canvas_dim_def
      sheetW_px_def sheetH_px_def sheetW_in_def sheetH_in_def SIZES_def DPI_def
      sample_encode_def)
  apply (simp add: dataURLtoFile_sample_jpeg [unfolded sample_browser_def]
      addImageToHistory_def resetTransientState_def)
  done

lemma passport_fields_resetTransientState [simp]:
  "passportStep (resetTransientState s) = passportStep s"
  "passportCroppedImage (resetTransientState s) = passportCroppedImage s"
  "activeTab (resetTransientState s) = activeTab s"
  by (simp_all add: resetTransientState_def)

lemma passport_fields_addImageToHistory [simp]:
  "passportStep (addImageToHistory f r s) = passportStep s"
  "passportCroppedImage (addImageToHistory f r s) = passportCroppedImage s"
  "activeTab (addImageToHistory f r s) = activeTab s"
  by (simp_all add: addImageToHistory_def Let_def)

text \<open>
  Every handler but the successful generation of a sheet keeps the invariant of the
  workflow. The handlers of the passport panel are reachable in the passport tab only.
\<close>

lemma passport_inv_kept:
  assumes "passport_inv s"
  shows "passport_inv (setActiveTab t s)"
    and "passport_inv (handleImageUpload f s)"
    and "passport_inv (handleUploadNew s)"
    and "passport_inv (handleUndo s)"
    and "passport_inv (handleRedo s)"
    and "passport_inv (handleReset s)"
    and "passport_inv (handleGenerate svc b s)"
    and "passport_inv (handleApplyFilter svc b p s)"
    and "passport_inv (handleApplyAdjustment svc b p s)"
    and "passport_inv (handleAutoAdjust svc b s)"
    and "passport_inv (handleUpscale svc b s)"
    and "passport_inv (handleApplyCrop b imgRef s)"
    and "activeTab s = Passport \<Longrightarrow> passport_inv (confirmCrop_click b imgRef s)"
    and "passport_inv (handlePassportBgChange svc b col s)"
    and "activeTab s = Passport \<Longrightarrow> passport_inv (handlePassportReset s)"
    and "\<not> loaded \<or> \<not> has2d b \<Longrightarrow> passport_inv (handleSheetGenerate b loaded z l n s)"
  using assms
  by (auto simp: passport_inv_def setActiveTab_def after_render_def activeTab_effect_def
      handleImageUpload_def handleUploadNew_def handleUndo_def handleRedo_def handleReset_def
      handleGenerate_def handleApplyFilter_def handleApplyAdjustment_def handleAutoAdjust_def
      handleUpscale_def handleApplyCrop_def confirmCrop_click_def handlePassportCrop_def
      handlePassportBgChange_def handlePassportReset_def handleSheetGenerate_def Let_def
      split: option.splits sum.splits)

lemma passport_inv_initial: "passport_inv initial_state"
  by (simp add: passport_inv_def initial_state_def)

text \<open>
  Claim C3. The claim holds that the cropped passport image is present exactly in the
  states \<open>background\<close> and \<open>sheet\<close>, and in particular that it is gone once a sheet has
  been generated and the workflow is back in \<open>idle\<close>. The code run on the sample session
  ends in \<open>idle\<close> with the cropped image still stored: \<open>img.onload\<close> sets the step and
  does not clear the image, unlike every other place that sets the step to \<open>idle\<close>. All
  other handlers keep the invariant, as shown above.
\<close>

theorem sheet_generation_keeps_cropped_image:
  "passportStep passport_session = Idle
   \<and> passportCroppedImage passport_session
       = Some (File ''AAAA'' ''passport-crop-1700000000000.png'' ''image/png'')"
  unfolding passport_session_def session_upload_and_tab session_crop_and_background
  by (rule session_sheet)

section \<open>Failures of the generator and of the sheet\<close>

lemma addImageToHistory_flags [simp]:
  "isLoading (addImageToHistory f r s) = isLoading s"
  "error (addImageToHistory f r s) = error s"
  by (simp_all add: addImageToHistory_def Let_def resetTransientState_def)

lemma handleGenerate_settled:
  assumes "currentImage s = Some cur" "js_trim (prompt s) \<noteq> []" "editHotspot s = Some h"
  shows "\<not> isLoading (handleGenerate svc b s)
         \<and> (error (handleGenerate svc b s) \<noteq> None \<longrightarrow>
              failure_contained s (handleGenerate svc b s))
         \<and> (generateEditedImage svc cur (prompt s) h = Inl e \<longrightarrow>
              error (handleGenerate svc b s)
                = Some (''Failed to generate the image. '' @ err_message e ''An unknown error occurred.''))"
  using assms
  by (auto simp: handleGenerate_def Let_def js_then_def failure_contained_def split: sum.splits)

lemma handleApplyFilter_settled:
  assumes "currentImage s = Some cur"
  shows "\<not> isLoading (handleApplyFilter svc b p s)
         \<and> (error (handleApplyFilter svc b p s) \<noteq> None \<longrightarrow>
              failure_contained s (handleApplyFilter svc b p s))
         \<and> (generateFilteredImage svc cur p = Inl e \<longrightarrow>
              error (handleApplyFilter svc b p s)
                = Some (''Failed to apply the filter. '' @ err_message e ''Unknown error''))"
  using assms
  by (auto simp: handleApplyFilter_def Let_def js_then_def failure_contained_def split: sum.splits)

lemma handleApplyAdjustment_settled:
  assumes "currentImage s = Some cur"
  shows "\<not> isLoading (handleApplyAdjustment svc b p s)
         \<and> (error (handleApplyAdjustment svc b p s) \<noteq> None \<longrightarrow>
              failure_contained s (handleApplyAdjustment svc b p s))
         \<and> (generateAdjustedImage svc cur p = Inl e \<longrightarrow>
              error (handleApplyAdjustment svc b p s)
                = Some (''Failed to apply adjustment. '' @ err_message e ''Unknown error''))"
  using assms
  by (auto simp: handleApplyAdjustment_def Let_def js_then_def failure_contained_def split: sum.splits)

lemma handleAutoAdjust_settled:
  assumes "currentImage s = Some cur"
  shows "\<not> isLoading (handleAutoAdjust svc b s)
         \<and> (error (handleAutoAdjust svc b s) \<noteq> None \<longrightarrow>
              failure_contained s (handleAutoAdjust svc b s))
         \<and> (generateAutoAdjustedImage svc cur = Inl e \<longrightarrow>
              error (handleAutoAdjust svc b s)
                = Some (''Failed to auto-adjust. '' @ err_message e ''Unknown error''))"
  using assms
  by (auto simp: handleAutoAdjust_def Let_def js_then_def failure_contained_def split: sum.splits)

lemma handleUpscale_settled:
  assumes "currentImage s = Some cur"
  shows "\<not> isLoading (handleUpscale svc b s)
         \<and> (error (handleUpscale svc b s) \<noteq> None \<longrightarrow>
              failure_contained s (handleUpscale svc b s))
         \<and> (generateUpscaledImage svc cur = Inl e \<longrightarrow>
              error (handleUpscale svc b s)
                = Some (''Failed to upscale image. '' @ err_message e ''Unknown error''))"
  using assms
  by (auto simp: handleUpscale_def Let_def js_then_def failure_contained_def split: sum.splits)

lemma handlePassportBgChange_settled:
  assumes "passportCroppedImage s = Some cr"
  shows "\<not> isLoading (handlePassportBgChange svc b col s)
         \<and> (error (handlePassportBgChange svc b col s) \<noteq> None \<longrightarrow>
              failure_contained s (handlePassportBgChange svc b col s))
         \<and> (generatePassportPhoto svc cr col = Inl e \<longrightarrow>
              error (handlePassportBgChange svc b col s)
                = Some (''Failed to change passport background. '' @ err_message e ''Unknown error''))"
  using assms
  by (auto simp: handlePassportBgChange_def Let_def js_then_def failure_contained_def split: sum.splits)

lemma handleSheetGenerate_settled:
  assumes "currentImage s = Some cur"
  shows "(\<not> loaded \<or> \<not> has2d b \<longrightarrow>
            failure_contained s (handleSheetGenerate b loaded z l n s))
       \<and> (loaded \<and> has2d b \<and> sheet_file b z l n = Inr f \<longrightarrow>
            \<not> isLoading (handleSheetGenerate b loaded z l n s))"
  using assms
  by (auto simp: handleSheetGenerate_def Let_def failure_contained_def)

text \<open>
  Claim C9. Let an image be current. Every action that calls the generator (retouch,
  filter, adjustment, auto-adjustment, upscaling, passport background) ends with the
  busy flag cleared, whether the call succeeds or fails; when the call is rejected, the
  message of the action is shown; and whenever a message is shown, the sequence and the
  cursor are what they were before the action. A sheet whose image fails to decode, or
  for which no drawing context is to be had, likewise leaves sequence and cursor alone,
  shows a message and clears the busy flag; a sheet that is produced clears the busy
  flag.
\<close>

theorem failures_contained:
  assumes "currentImage s = Some cur"
  shows "(js_trim (prompt s) \<noteq> [] \<and> editHotspot s = Some h \<longrightarrow>
            \<not> isLoading (handleGenerate svc b s)
            \<and> (error (handleGenerate svc b s) \<noteq> None \<longrightarrow>
                 failure_contained s (handleGenerate svc b s))
            \<and> (generateEditedImage svc cur (prompt s) h = Inl e \<longrightarrow>
                 error (handleGenerate svc b s)
                   = Some (''Failed to generate the image. '' @ err_message e ''An unknown error occurred.'')))
       \<and> \<not> isLoading (handleApplyFilter svc b p s)
       \<and> (error (handleApplyFilter svc b p s) \<noteq> None \<longrightarrow>
            failure_contained s (handleApplyFilter svc b p s))
       \<and> (generateFilteredImage svc cur p = Inl e \<longrightarrow>
            error (handleApplyFilter svc b p s)
              = Some (''Failed to apply the filter. '' @ err_message e ''Unknown error''))
       \<and> \<not> isLoading (handleApplyAdjustment svc b p s)
       \<and> (error (handleApplyAdjustment svc b p s) \<noteq> None \<longrightarrow>
            failure_contained s (handleApplyAdjustment svc b p s))
       \<and> (generateAdjustedImage svc cur p = Inl e \<longrightarrow>
            error (handleApplyAdjustment svc b p s)
              = Some (''Failed to apply adjustment. '' @ err_message e ''Unknown error''))
       \<and> \<not> isLoading (handleAutoAdjust svc b s)
       \<and> (error (handleAutoAdjust svc b s) \<noteq> None \<longrightarrow>
            failure_contained s (handleAutoAdjust svc b s))
       \<and> (generateAutoAdjustedImage svc cur = Inl e \<longrightarrow>
            error (handleAutoAdjust svc b s)
              = Some (''Failed to auto-adjust. '' @ err_message e ''Unknown error''))
       \<and> \<not> isLoading (handleUpscale svc b s)
       \<and> (error (handleUpscale svc b s) \<noteq> None \<longrightarrow>
            failure_contained s (handleUpscale svc b s))
       \<and> (generateUpscaledImage svc cur = Inl e \<longrightarrow>
            error (handleUpscale svc b s)
              = Some (''Failed to upscale image. '' @ err_message e ''Unknown error''))
       \<and> (passportCroppedImage s = Some cr \<longrightarrow>
            \<not> isLoading (handlePassportBgChange svc b col s)
            \<and> (error (handlePassportBgChange svc b col s) \<noteq> None \<longrightarrow>
                 failure_contained s (handlePassportBgChange svc b col s))
            \<and> (generatePassportPhoto svc cr col = Inl e \<longrightarrow>
                 error (handlePassportBgChange svc b col s)
                   = Some (''Failed to change passport background. '' @ err_message e ''Unknown error'')))
       \<and> (\<not> loaded \<or> \<not> has2d b \<longrightarrow>
            failure_contained s (handleSheetGenerate b loaded z l n s))
       \<and> (loaded \<and> has2d b \<and> sheet_file b z l n = Inr f \<longrightarrow>
            \<not> isLoading (handleSheetGenerate b loaded z l n s))"
proof -
  have "js_trim (prompt s) \<noteq> [] \<and> editHotspot s = Some h \<longrightarrow>
            \<not> isLoading (handleGenerate svc b s)
            \<and> (error (handleGenerate svc b s) \<noteq> None \<longrightarrow>
                 failure_contained s (handleGenerate svc b s))
            \<and> (generateEditedImage svc cur (prompt s) h = Inl e \<longrightarrow>
                 error (handleGenerate svc b s)
                   = Some (''Failed to generate the image. '' @ err_message e ''An unknown error occurred.''))"
    using handleGenerate_settled [OF assms] by blast
  moreover have "passportCroppedImage s = Some cr \<longrightarrow>
            \<not> isLoading (handlePassportBgChange svc b col s)
            \<and> (error (handlePassportBgChange svc b col s) \<noteq> None \<longrightarrow>
                 failure_contained s (handlePassportBgChange svc b col s))
            \<and> (generatePassportPhoto svc cr col = Inl e \<longrightarrow>
                 error (handlePassportBgChange svc b col s)
                   = Some (''Failed to change passport background. '' @ err_message e ''Unknown error''))"
    using handlePassportBgChange_settled by blast
  ultimately show ?thesis
    using handleApplyFilter_settled [OF assms, of svc b p e]
      handleApplyAdjustment_settled [OF assms, of svc b p e]
      handleAutoAdjust_settled [OF assms, of svc b e]
      handleUpscale_settled [OF assms, of svc b e]
      handleSheetGenerate_settled [OF assms, of loaded b z l n f]
    by simp
qed

theorem failures_contained_witness:
  "failure_contained sheet_state
     (handlePassportBgChange failing_service sample_browser ''White'' sheet_state)
   \<and> failure_contained sheet_state
       (handleUpscale failing_service sample_browser sheet_state)
   \<and> failure_contained sheet_state
       (handleSheetGenerate sample_browser False A4 Landscape 4 sheet_state)
   \<and> \<not> isLoading (handleSheetGenerate sample_browser True A4 Landscape 4 sheet_state)"
proof -
  have cur: "currentImage sheet_state
               = Some (File ''AAAA'' ''passport-1700000000000.png'' ''image/png'')"
    by (simp add: currentImage_def js_index_def sheet_state_def cropping_state_def)
  have cr: "passportCroppedImage sheet_state
              = Some (File ''AAAA'' ''passport-crop-1700000000000.png'' ''image/png'')"
    by (simp add: sheet_state_def)
  have f: "sheet_file sample_browser A4 Landscape 4
             = Inr (File ''AAAA'' ''passport-sheet-A4-landscape-1700000000000.jpg'' ''image/jpeg'')"
    by (simp add: sheet_file_def toDataURL_def sheetCanvas_def set_canvas_dim_def
        sheetW_px_def sheetH_px_def sheetW_in_def sheetH_in_def SIZES_def DPI_def
        sample_browser_def sample_encode_def sheet_name_def SheetSize_text_def
        Layout_text_def
        dataURLtoFile_sample_jpeg [unfolded sample_browser_def])
  have g: "has2d sample_browser" by (simp add: sample_browser_def)
  have r: "generatePassportPhoto failing_service
             (File ''AAAA'' ''passport-crop-1700000000000.png'' ''image/png'') ''White''
             = Inl (Error ''quota exceeded'')"
          "generateUpscaledImage failing_service
             (File ''AAAA'' ''passport-1700000000000.png'' ''image/png'')
             = Inl (Error ''quota exceeded'')"
    by (simp_all add: failing_service_def reject1_def reject2_def)
  show ?thesis
    using failures_contained [OF cur, of _ failing_service sample_browser
        "Error ''quota exceeded''" _
        "File ''AAAA'' ''passport-crop-1700000000000.png'' ''image/png''" "''White''"
        False A4 Landscape 4]
      failures_contained [OF cur, of _ failing_service sample_browser _ _ _ _
        True A4 Landscape 4
        "File ''AAAA'' ''passport-sheet-A4-landscape-1700000000000.jpg'' ''image/jpeg''"]
      cr f g r
    by simp
qed

section \<open>The translator of adjustments\<close>

lemma intensity_tier:
  assumes "m \<le> 100"
  shows "(case map_of intensityMap
               (case find (\<lambda>k. m \<le> k) (map fst intensityMap) of None \<Rightarrow> 60 | Some k \<Rightarrow> k) of
            None \<Rightarrow> ''undefined'' | Some t \<Rightarrow> t) = spec_tier m"
  using assms by (simp add: intensityMap_def spec_tier_def)

lemma valueToText_spec:
  assumes "\<bar>v\<bar> \<le> 100" "v \<noteq> 0"
  shows "valueToText key v = (if key = VignetteFeather then None else Some (spec_phrase key v))"
  using assms intensity_tier [of "\<bar>v\<bar>"]
  by (cases key) (simp_all add: valueToText_def Let_def spec_direction_def)

lemma valueToText_0: "valueToText key 0 = None"
  by (simp add: valueToText_def)

text \<open>What one key contributes to the parts.\<close>

lemma foldl_push_part:
  "foldl (push_part a) acc ks = acc @ concat (map (push_part a []) ks)"
proof (induction ks arbitrary: acc)
  case Nil
  then show ?case by simp
next
  case (Cons k ks)
  have "push_part a acc k = acc @ push_part a [] k"
    by (simp add: push_part_def split: option.splits)
  with Cons.IH [of "push_part a acc k"] show ?case by simp
qed

lemma spec_phrase_nonempty: "key \<noteq> VignetteFeather \<Longrightarrow> spec_phrase key v \<noteq> []"
  by (cases key) (simp_all add: spec_direction_def)

lemma push_part_spec:
  assumes "\<bar>adjustment_value a key\<bar> \<le> 100"
  shows "push_part a [] key =
           (if key = VignetteIntensity \<or> key = VignetteFeather \<or> adjustment_value a key = 0
            then [] else [spec_phrase key (adjustment_value a key)])"
proof (cases "adjustment_value a key = 0")
  case True
  then show ?thesis by (simp add: push_part_def valueToText_0)
next
  case False
  with assms valueToText_spec [of "adjustment_value a key" key] spec_phrase_nonempty [of key]
  show ?thesis
    by (cases key) (simp_all add: push_part_def key_text_def js_startsWith_def)
qed

lemma parts_spec:
  assumes "slider_range a"
  shows "foldl (push_part a) [] adjustment_keys =
           map (\<lambda>k. spec_phrase k (adjustment_value a k))
             (filter (\<lambda>k. adjustment_value a k \<noteq> 0)
                [Brightness, Contrast, Saturation, Temperature, Sharpness, ColorBalance])"
proof -
  have r: "\<bar>adjustment_value a key\<bar> \<le> 100" for key
    using assms by (cases key) (simp_all add: slider_range_def adjustment_value_def)
  show ?thesis
    unfolding foldl_push_part
    by (simp add: adjustment_keys_def push_part_spec [OF r])
qed

lemma sentence_spec:
  "(if length ps = 0 then []
    else if length ps = 1 then ''Apply the following adjustment: '' @ ps ! 0 @ ''.''
    else ''Apply the following adjustments: '' @ js_join '', '' (butlast ps)
         @ '', and '' @ last ps @ ''.'') = spec_sentence ps"
proof (cases ps)
  case Nil
  then show ?thesis by simp
next
  case (Cons p qs)
  then show ?thesis by (cases qs) simp_all
qed

text \<open>
  Claim C6. For every record of sliders within the range of the panel, the instruction
  the translator builds is the one of the reference: one phrase for each non-zero slider,
  its tier chosen by the magnitude (up to 20 subtly, up to 40 slightly, up to 60
  unqualified, up to 80 significantly, up to 100 dramatically) and its direction by the
  sign; the feather descriptor appended to the vignette phrase, and only there; nothing
  for a slider at zero; the empty string for no phrase, the singular sentence for one,
  and for more the phrases joined by commas with a closing "and" and a full stop.
\<close>

theorem translator_meets_reference:
  assumes "slider_range a"
  shows "generatedPrompt a = spec_translate a"
proof -
  have v: "vignetteIntensity a \<noteq> 0 \<Longrightarrow>
           (case valueToText VignetteIntensity (vignetteIntensity a) of
              None \<Rightarrow> ''null'' | Some vignettePrompt \<Rightarrow> vignettePrompt)
           = spec_phrase VignetteIntensity (vignetteIntensity a)"
    using assms valueToText_spec [of "vignetteIntensity a" VignetteIntensity]
    by (simp add: slider_range_def)
  have f: "featherDesc (vignetteFeather a) = spec_feather (vignetteFeather a)"
    by (simp add: featherDesc_def spec_feather_def)
  have "(if vignetteIntensity a \<noteq> 0
         then foldl (push_part a) [] adjustment_keys
              @ [(case valueToText VignetteIntensity (vignetteIntensity a) of
                    None \<Rightarrow> ''null'' | Some vignettePrompt \<Rightarrow> vignettePrompt)
                 @ '' '' @ featherDesc (vignetteFeather a)]
         else foldl (push_part a) [] adjustment_keys) = spec_phrases a"
    using v f by (simp add: parts_spec [OF assms] spec_phrases_def)
  then show ?thesis
    unfolding generatedPrompt_def spec_translate_def Let_def
    by (simp only: sentence_spec)
qed

theorem translator_meets_reference_witness:
  "generatedPrompt
     (initialAdjustments\<lparr>brightness := 15, temperature := - 50, vignetteIntensity := 50,
                         vignetteFeather := 10\<rparr>)
   = ''Apply the following adjustments: increase the brightness subtly, make the image's color temperature  cooler, and add a  dark vignette with a hard, distinct edge.''"
  using translator_meets_reference
    [of "initialAdjustments\<lparr>brightness := 15, temperature := - 50, vignetteIntensity := 50,
                              vignetteFeather := 10\<rparr>"]
  by (simp add: slider_range_def initialAdjustments_def spec_translate_def spec_phrases_def
      adjustment_value_def spec_tier_def spec_feather_def spec_direction_def)

section \<open>The printable sheet\<close>







lemma cell_width: "photoW_px + margin_px = 8867721 / 20000"
  by (simp add: photoW_px_def margin_px_def PASSPORT_SIZE_MM_def MM_TO_IN_def DPI_def)

lemma cell_height: "photoH_px + margin_px = 11229927 / 20000"
  by (simp add: photoH_px_def margin_px_def PASSPORT_SIZE_MM_def MM_TO_IN_def DPI_def)

lemma margin_30: "margin_px = 30"
  by (simp add: margin_px_def DPI_def)




lemma sheet_px:
  "sheetW_px S4x6 Portrait = 1200" "sheetH_px S4x6 Portrait = 1800"
  "sheetW_px S4x6 Landscape = 1800" "sheetH_px S4x6 Landscape = 1200"
  "sheetW_px S5x7 Portrait = 1500" "sheetH_px S5x7 Portrait = 2100"
  "sheetW_px S5x7 Landscape = 2100" "sheetH_px S5x7 Landscape = 1500"
  "sheetW_px A4 Portrait = 2481" "sheetH_px A4 Portrait = 3507"
  "sheetW_px A4 Landscape = 3507" "sheetH_px A4 Landscape = 2481"
  by (simp_all add: sheetW_px_def sheetH_px_def sheetW_in_def sheetH_in_def SIZES_def DPI_def)

















subsection \<open>The checks of the loop are not close\<close>

text \<open>
  No check of the loop is close: on the six pages the right edge of a candidate photo
  plus the margin stays 3 pixels or more away from the page width, and its lower edge
  plus the margin 3 pixels or more away from the page height. The geometry of the sheet
  is computed in exact rationals; an error in the last places of a double does not
  change a decision of the loop, and the page sizes, which become the size of the canvas,
  are whole numbers of pixels as doubles too (the examples of rounding above).
\<close>

lemma clear_of_threshold:
  fixes a d t e :: rat
  assumes "0 \<le> d" "a + of_nat C * d \<le> t - e" "t + e \<le> a + of_nat (Suc C) * d"
  shows "e \<le> \<bar>a + of_nat (Suc c) * d - t\<bar>"
proof (cases "c < C")
  case True
  then have "rat_of_nat (Suc c) \<le> of_nat C" by simp
  then have "of_nat (Suc c) * d \<le> of_nat C * d"
    using assms(1) by (rule mult_right_mono)
  with assms(2) show ?thesis by linarith
next
  case False
  then have "rat_of_nat (Suc C) \<le> of_nat (Suc c)" by simp
  then have "of_nat (Suc C) * d \<le> of_nat (Suc c) * d"
    using assms(1) by (rule mult_right_mono)
  with assms(3) show ?thesis by linarith
qed

lemma columns_clear:
  "3 \<le> \<bar>(30::rat) + of_nat (Suc c) * (8867721 / 20000) - 1200\<bar>"
  "3 \<le> \<bar>(30::rat) + of_nat (Suc c) * (8867721 / 20000) - 1800\<bar>"
  "3 \<le> \<bar>(30::rat) + of_nat (Suc c) * (8867721 / 20000) - 1500\<bar>"
  "3 \<le> \<bar>(30::rat) + of_nat (Suc c) * (8867721 / 20000) - 2100\<bar>"
  "3 \<le> \<bar>(30::rat) + of_nat (Suc c) * (8867721 / 20000) - 2481\<bar>"
  "3 \<le> \<bar>(30::rat) + of_nat (Suc c) * (8867721 / 20000) - 3507\<bar>"
  apply (rule clear_of_threshold [where C = 2]; simp)
  apply (rule clear_of_threshold [where C = 3]; simp)
  apply (rule clear_of_threshold [where C = 3]; simp)
  apply (rule clear_of_threshold [where C = 4]; simp)
  apply (rule clear_of_threshold [where C = 5]; simp)
  apply (rule clear_of_threshold [where C = 7]; simp)
  done

lemma rows_clear:
  "3 \<le> \<bar>(30::rat) + of_nat (Suc r) * (11229927 / 20000) - 1800\<bar>"
  "3 \<le> \<bar>(30::rat) + of_nat (Suc r) * (11229927 / 20000) - 1200\<bar>"
  "3 \<le> \<bar>(30::rat) + of_nat (Suc r) * (11229927 / 20000) - 2100\<bar>"
  "3 \<le> \<bar>(30::rat) + of_nat (Suc r) * (11229927 / 20000) - 1500\<bar>"
  "3 \<le> \<bar>(30::rat) + of_nat (Suc r) * (11229927 / 20000) - 3507\<bar>"
  "3 \<le> \<bar>(30::rat) + of_nat (Suc r) * (11229927 / 20000) - 2481\<bar>"
  apply (rule clear_of_threshold [where C = 3]; simp)
  apply (rule clear_of_threshold [where C = 2]; simp)
  apply (rule clear_of_threshold [where C = 3]; simp)
  apply (rule clear_of_threshold [where C = 2]; simp)
  apply (rule clear_of_threshold [where C = 6]; simp)
  apply (rule clear_of_threshold [where C = 4]; simp)
  done

lemma fit_checks_clear:
  "3 \<le> \<bar>margin_px + of_nat (Suc c) * (photoW_px + margin_px) - sheetW_px z l\<bar>"
  "3 \<le> \<bar>margin_px + of_nat (Suc r) * (photoH_px + margin_px) - sheetH_px z l\<bar>"
  by (cases z; cases l; simp only: cell_width cell_height; simp only: margin_30 sheet_px;
      rule columns_clear rows_clear)+

end
